theory Spec2Isabelle
  imports Main
begin

section \<open>Python strings\<close>

text \<open>
  Strings are lists of 8-bit characters. The character classes below are Python's
  \<^verbatim>\<open>str.isdigit\<close>, \<^verbatim>\<open>str.isspace\<close> and \<^verbatim>\<open>str.lower\<close> on ASCII text; code points beyond
  ASCII are left alone by this model.
\<close>

definition isdigit :: "char \<Rightarrow> bool" where
  "isdigit c = (c \<in> set ''0123456789'')"

definition isspace :: "char \<Rightarrow> bool" where
  "isspace c =
     (c \<in> set [CHR '' '', CHR 0x09, CHR 0x0A, CHR 0x0B, CHR 0x0C, CHR 0x0D,
                CHR 0x1C, CHR 0x1D, CHR 0x1E, CHR 0x1F])"

definition lower_char :: "char \<Rightarrow> char" where
  "lower_char c =
     (case map_of (zip ''ABCDEFGHIJKLMNOPQRSTUVWXYZ'' ''abcdefghijklmnopqrstuvwxyz'') c of
        Some l \<Rightarrow> l
      | None \<Rightarrow> c)"

definition lower :: "string \<Rightarrow> string" where
  "lower s = map lower_char s"

definition strip :: "string \<Rightarrow> string" where
  "strip s = rev (dropWhile isspace (rev (dropWhile isspace s)))"

fun startswith :: "string \<Rightarrow> string \<Rightarrow> bool" where
  "startswith s [] = True"
| "startswith [] (p # ps) = False"
| "startswith (c # cs) (p # ps) = (c = p \<and> startswith cs ps)"

text \<open>\<^verbatim>\<open>k in s\<close> on strings: \<open>k\<close> occurs in \<open>s\<close> as a contiguous run.\<close>

fun contains :: "string \<Rightarrow> string \<Rightarrow> bool" where
  "contains [] k = (k = [])"
| "contains (c # cs) k = (startswith (c # cs) k \<or> contains cs k)"

text \<open>\<^verbatim>\<open>s.split(d)\<close> for a one-character separator: never returns the empty list.\<close>

fun split :: "char \<Rightarrow> string \<Rightarrow> string list" where
  "split d [] = [[]]"
| "split d (c # cs) =
     (if c = d then [] # split d cs
      else (case split d cs of g # gs \<Rightarrow> (c # g) # gs | [] \<Rightarrow> [[c]]))"

text \<open>
  \<^verbatim>\<open>s.replace(old, new)\<close>: leftmost occurrences, not overlapping. Every call in the
  program has a non-empty \<open>old\<close>; for an empty one this model returns \<open>s\<close>.
\<close>

function replace :: "string \<Rightarrow> string \<Rightarrow> string \<Rightarrow> string" where
  "replace old new [] = []"
| "replace old new (c # cs) =
     (if old \<noteq> [] \<and> startswith (c # cs) old
      then new @ replace old new (drop (length old) (c # cs))
      else c # replace old new cs)"
  by pat_completeness auto
termination
  by (relation "measure (\<lambda>(old, new, s). length s)") auto

section \<open>Dataframes\<close>

text \<open>
  A cell of a dataframe. \<open>NA\<close> stands for every value \<^verbatim>\<open>pd.isna\<close> accepts (\<^verbatim>\<open>None\<close>,
  \<^verbatim>\<open>NaN\<close>, \<^verbatim>\<open>NaT\<close>). Numbers \<open>'n\<close> and timestamps \<open>'t\<close> are the library's; a
  \<^verbatim>\<open>datetime.date\<close> is held as the timestamp of its midnight.
\<close>

datatype ('n, 't) cell = NA | Str string | Num 'n | Ts 't | Day 't

datatype dtype = ObjectT | NumberT | DatetimeT

datatype ('n, 't) series = Series (dtype_of: dtype) (cells: "('n, 't) cell list")

text \<open>A dataframe: its columns in order, each a name and a series.\<close>

type_synonym ('n, 't) frame = "(string \<times> ('n, 't) series) list"

definition columns :: "('n, 't) frame \<Rightarrow> string list" where
  "columns df = map fst df"

definition has_col :: "('n, 't) frame \<Rightarrow> string \<Rightarrow> bool" where
  "has_col df name = (name \<in> set (columns df))"

definition get_col :: "('n, 't) frame \<Rightarrow> string \<Rightarrow> ('n, 't) series option" where
  "get_col df name = map_of df name"

text \<open>\<^verbatim>\<open>df[name] = s\<close>: overwrite the column in place, or append a new one.\<close>

definition set_col :: "('n, 't) frame \<Rightarrow> string \<Rightarrow> ('n, 't) series \<Rightarrow> ('n, 't) frame" where
  "set_col df name s =
     (if has_col df name then map (\<lambda>(n, old). if n = name then (n, s) else (n, old)) df
      else df @ [(name, s)])"

text \<open>\<^verbatim>\<open>df.drop([name], axis=1, errors='ignore')\<close>.\<close>

definition drop_col :: "('n, 't) frame \<Rightarrow> string \<Rightarrow> ('n, 't) frame" where
  "drop_col df name = filter (\<lambda>(n, s). n \<noteq> name) df"

text \<open>\<^verbatim>\<open>len(df)\<close>, read from the first column.\<close>

definition nrows :: "('n, 't) frame \<Rightarrow> nat" where
  "nrows df = (case df of [] \<Rightarrow> 0 | (n, s) # rest \<Rightarrow> length (cells s))"

text \<open>
  The frames pandas builds: column names are distinct and all columns have the same
  number of rows.
\<close>

definition wf_frame :: "('n, 't) frame \<Rightarrow> bool" where
  "wf_frame df = (distinct (columns df) \<and> list_all (\<lambda>(n, s). length (cells s) = nrows df) df)"

section \<open>Column lookup (utils/helpers.py)\<close>

definition site_columns :: "string list" where
  "site_columns = [''Site_Name'', ''site_name'', ''SITE_NAME'', ''site'']"

definition find_site_column :: "('n, 't) frame option \<Rightarrow> string option" where
  "find_site_column df =
     (case df of None \<Rightarrow> None
      | Some d \<Rightarrow> find (\<lambda>col. has_col d col) site_columns)"

section \<open>The library interface\<close>

text \<open>
  The program calls pandas for everything that reads or prints a number or a timestamp.
  These functions are not part of the program; the model takes them as a record of
  functions, one field per library call, and every theorem holds for every such record.
  \<^item> \<open>to_numeric\<close>: \<^verbatim>\<open>pd.to_numeric(..., errors='coerce')\<close> on one string, \<open>None\<close> for \<^verbatim>\<open>NaN\<close>;
  \<^item> \<open>to_datetime\<close>: \<^verbatim>\<open>pd.to_datetime(..., format=f, errors='coerce')\<close> on one string,
    \<open>None\<close> for \<^verbatim>\<open>NaT\<close>;
  \<^item> \<open>num_str\<close>, \<open>ts_str\<close>, \<open>date_str\<close>: Python's \<^verbatim>\<open>str\<close> of a number, a timestamp, a date;
  \<^item> \<open>dt_hour\<close>, \<open>dt_date\<close>, \<open>dt_day_name\<close>, \<open>dt_month\<close>, \<open>dt_year\<close>: the \<^verbatim>\<open>.dt\<close> accessors;
  \<^item> \<open>total_minutes e s\<close>: \<^verbatim>\<open>(e - s).total_seconds() / 60\<close>.

  Two calls of the library can raise an exception whatever the rows hold:
  \<^item> \<open>to_datetime_raises f cs\<close>: \<^verbatim>\<open>pd.to_datetime\<close> raises on the series \<open>cs\<close> under
    the format \<open>f\<close> (a format with an unknown directive, for one);
  \<^item> \<open>subtract_raises e s\<close>: the difference \<^verbatim>\<open>e - s\<close> of two datetime series raises (one
    with a time zone and one without).
\<close>

record ('n, 't) pandas =
  to_numeric :: "string \<Rightarrow> 'n option"
  to_datetime :: "string \<Rightarrow> string \<Rightarrow> 't option"
  num_str :: "'n \<Rightarrow> string"
  ts_str :: "'t \<Rightarrow> string"
  date_str :: "'t \<Rightarrow> string"
  dt_hour :: "'t \<Rightarrow> 'n"
  dt_date :: "'t \<Rightarrow> 't"
  dt_day_name :: "'t \<Rightarrow> string"
  dt_month :: "'t \<Rightarrow> 'n"
  dt_year :: "'t \<Rightarrow> 'n"
  total_minutes :: "'t \<Rightarrow> 't \<Rightarrow> 'n"
  to_datetime_raises :: "string \<Rightarrow> ('n, 't) cell list \<Rightarrow> bool"
  subtract_raises :: "('n, 't) series \<Rightarrow> ('n, 't) series \<Rightarrow> bool"

text \<open>
  \<^verbatim>\<open>str(value)\<close>. Both normalizers test \<^verbatim>\<open>pd.isna(value)\<close> before they call it, so the
  equation for \<open>NA\<close> is never used.
\<close>

fun py_str :: "('n, 't) pandas \<Rightarrow> ('n, 't) cell \<Rightarrow> string" where
  "py_str api NA = ''nan''"
| "py_str api (Str s) = s"
| "py_str api (Num n) = num_str api n"
| "py_str api (Ts t) = ts_str api t"
| "py_str api (Day d) = date_str api d"

text \<open>What \<^verbatim>\<open>Series.apply\<close> stores for a function that returns \<^verbatim>\<open>None\<close> or a string.\<close>

fun opt_cell :: "string option \<Rightarrow> ('n, 't) cell" where
  "opt_cell None = NA"
| "opt_cell (Some s) = Str s"

text \<open>\<^verbatim>\<open>df[name]\<close>; the program reads a column only under \<^verbatim>\<open>name in df.columns\<close>.\<close>

definition getitem :: "('n, 't) frame \<Rightarrow> string \<Rightarrow> ('n, 't) series" where
  "getitem df name = (case get_col df name of Some s \<Rightarrow> s | None \<Rightarrow> Series ObjectT [])"

section \<open>The numeric normalizer (utils/helpers.py)\<close>

definition clean_european_number :: "('n, 't) pandas \<Rightarrow> ('n, 't) cell \<Rightarrow> string option" where
  "clean_european_number api v =
     (if v = NA then None
      else
        (let str_val = replace [CHR 0x22] [] (strip (py_str api v)) in
         if \<not> list_ex isdigit str_val then None
         else if contains str_val '','' \<and> contains str_val ''.''
           then Some (replace '','' [] str_val)
         else if contains str_val '','' \<and> \<not> contains str_val ''.''
           then (let parts = split (CHR '','') str_val in
                 if length parts = 2 \<and> length (parts ! 1) \<le> 3 \<and> length (parts ! 1) > 0
                 then Some (replace '','' ''.'' str_val)
                 else Some (replace '','' [] str_val))
         else Some str_val))"

text \<open>
  \<^verbatim>\<open>pd.to_numeric(series, errors='coerce')\<close>, cell by cell. The series it receives holds
  strings and \<^verbatim>\<open>None\<close> only.
\<close>

fun to_numeric_cell :: "('n, 't) pandas \<Rightarrow> ('n, 't) cell \<Rightarrow> ('n, 't) cell" where
  "to_numeric_cell api (Str s) = (case to_numeric api s of None \<Rightarrow> NA | Some n \<Rightarrow> Num n)"
| "to_numeric_cell api (Num n) = Num n"
| "to_numeric_cell api c = NA"

definition pd_to_numeric :: "('n, 't) pandas \<Rightarrow> ('n, 't) series \<Rightarrow> ('n, 't) series" where
  "pd_to_numeric api s = Series NumberT (map (to_numeric_cell api) (cells s))"

text \<open>The two assignments of the loop body, on the copy \<open>df_clean\<close>.\<close>

definition clean_column :: "('n, 't) pandas \<Rightarrow> string \<Rightarrow> ('n, 't) frame \<Rightarrow> ('n, 't) frame" where
  "clean_column api col df_clean =
     (let df1 = set_col df_clean col
                  (Series ObjectT (map (\<lambda>v. opt_cell (clean_european_number api v))
                                       (cells (getitem df_clean col))));
          df2 = set_col df1 col (pd_to_numeric api (getitem df1 col))
      in df2)"

definition clean_numeric_data :: "('n, 't) pandas \<Rightarrow> ('n, 't) frame \<Rightarrow> string list \<Rightarrow> ('n, 't) frame" where
  "clean_numeric_data api df cols =
     fold (\<lambda>col df_clean. if has_col df_clean col then clean_column api col df_clean else df_clean)
          cols df"

section \<open>The date normalizer (utils/helpers.py)\<close>

definition clean_date_format :: "('n, 't) pandas \<Rightarrow> ('n, 't) cell \<Rightarrow> string option" where
  "clean_date_format api date_str0 =
     (if date_str0 = NA \<or> date_str0 = Str [] \<or> lower (py_str api date_str0) = ''nan'' then None
      else
        (let cleaned = replace ''.000'' [] (replace '' @ '' '' '' (py_str api date_str0))
         in Some (strip cleaned)))"

text \<open>\<^verbatim>\<open>pd.to_datetime(series, format=target_format, errors='coerce')\<close>, cell by cell.\<close>

fun to_datetime_cell :: "('n, 't) pandas \<Rightarrow> string \<Rightarrow> ('n, 't) cell \<Rightarrow> 't option" where
  "to_datetime_cell api target_format (Str s) = to_datetime api target_format s"
| "to_datetime_cell api target_format (Ts t) = Some t"
| "to_datetime_cell api target_format c = None"

fun ts_cell :: "'t option \<Rightarrow> ('n, 't) cell" where
  "ts_cell None = NA"
| "ts_cell (Some t) = Ts t"

fun dt_apply :: "('t \<Rightarrow> ('n, 't) cell) \<Rightarrow> 't option \<Rightarrow> ('n, 't) cell" where
  "dt_apply f None = NA"
| "dt_apply f (Some t) = f t"

text \<open>The five assignments under \<^verbatim>\<open>if create_derived_fields\<close>.\<close>

definition derived_fields :: "('n, 't) pandas \<Rightarrow> 't option list \<Rightarrow> ('n, 't) frame \<Rightarrow> ('n, 't) frame" where
  "derived_fields api datetime_series df_result =
     (let d1 = set_col df_result ''hour''
                 (Series NumberT (map (dt_apply (\<lambda>t. Num (dt_hour api t))) datetime_series));
          d2 = set_col d1 ''date''
                 (Series ObjectT (map (dt_apply (\<lambda>t. Day (dt_date api t))) datetime_series));
          d3 = set_col d2 ''day_of_week''
                 (Series ObjectT (map (dt_apply (\<lambda>t. Str (dt_day_name api t))) datetime_series));
          d4 = set_col d3 ''month''
                 (Series NumberT (map (dt_apply (\<lambda>t. Num (dt_month api t))) datetime_series));
          d5 = set_col d4 ''year''
                 (Series NumberT (map (dt_apply (\<lambda>t. Num (dt_year api t))) datetime_series))
      in d5)"

fun minutes_cell :: "('n, 't) pandas \<Rightarrow> ('n, 't) cell \<times> ('n, 't) cell \<Rightarrow> ('n, 't) cell" where
  "minutes_cell api (Ts e, Ts s) = Num (total_minutes api e s)"
| "minutes_cell api (e, s) = NA"

text \<open>
  A column name that occurs more than once among the columns. For such a name
  \<^verbatim>\<open>df[name]\<close> is a dataframe and not a series: \<^verbatim>\<open>df[name].apply(clean_date_format)\<close>
  raises \<^verbatim>\<open>ValueError\<close> (the truth value of a series), \<^verbatim>\<open>pd.to_datetime(df[name], ...)\<close>
  raises \<^verbatim>\<open>ValueError\<close> (no year, month and day columns), and
  \<^verbatim>\<open>is_datetime64_any_dtype(df[name])\<close> is \<^verbatim>\<open>False\<close>.
\<close>

definition duplicated :: "('n, 't) frame \<Rightarrow> string \<Rightarrow> bool" where
  "duplicated df name = (1 < count_list (columns df) name)"

definition is_datetime_col :: "('n, 't) frame \<Rightarrow> string \<Rightarrow> bool" where
  "is_datetime_col df name = (\<not> duplicated df name \<and> dtype_of (getitem df name) = DatetimeT)"

text \<open>The block that creates \<open>duration_minutes\<close>: its two tests, and the assignment.\<close>

definition duration_wanted :: "('n, 't) frame \<Rightarrow> bool" where
  "duration_wanted df_result =
     ((has_col df_result ''start_time'' \<and> has_col df_result ''end_time'')
      \<and> (is_datetime_col df_result ''start_time'' \<and> is_datetime_col df_result ''end_time''))"

definition add_duration :: "('n, 't) pandas \<Rightarrow> ('n, 't) frame \<Rightarrow> ('n, 't) frame" where
  "add_duration api df_result =
     (if duration_wanted df_result
      then set_col df_result ''duration_minutes''
             (Series NumberT (map (minutes_cell api)
                (zip (cells (getitem df_result ''end_time''))
                     (cells (getitem df_result ''start_time'')))))
      else df_result)"

text \<open>
  The statements of the \<^verbatim>\<open>try\<close> block, on the copy \<open>df_result\<close>: the cleaned strings
  and the scratch column that holds them (line 115), the conversion of the scratch column
  (line 118), and the overwriting of the column with the derived fields (lines 125 to 141).
\<close>

definition cleaned_cells :: "('n, 't) pandas \<Rightarrow> ('n, 't) frame \<Rightarrow> string \<Rightarrow> ('n, 't) cell list" where
  "cleaned_cells api df_result column_name =
     map (\<lambda>v. opt_cell (clean_date_format api v)) (cells (getitem df_result column_name))"

definition with_scratch :: "('n, 't) pandas \<Rightarrow> ('n, 't) frame \<Rightarrow> string \<Rightarrow> ('n, 't) frame" where
  "with_scratch api df_result column_name =
     set_col df_result (column_name @ ''_clean'')
       (Series ObjectT (cleaned_cells api df_result column_name))"

definition converted :: "('n, 't) pandas \<Rightarrow> ('n, 't) frame \<Rightarrow> string \<Rightarrow> string \<Rightarrow> 't option list" where
  "converted api df1 column_name target_format =
     map (to_datetime_cell api target_format) (cells (getitem df1 (column_name @ ''_clean'')))"

definition overwritten ::
  "('n, 't) pandas \<Rightarrow> ('n, 't) frame \<Rightarrow> string \<Rightarrow> 't option list \<Rightarrow> bool \<Rightarrow> ('n, 't) frame" where
  "overwritten api df1 column_name datetime_series create_derived_fields =
     (let valid_dates = length (filter (\<lambda>d. d \<noteq> None) datetime_series)
      in if valid_dates > 0 then
           (let df_over = set_col df1 column_name (Series DatetimeT (map ts_cell datetime_series))
            in if create_derived_fields then derived_fields api datetime_series df_over
               else df_over)
         else df1)"

text \<open>
  The \<^verbatim>\<open>try\<close> block. \<open>Inr\<close> is the normal return, the dataframe and the flag. \<open>Inl\<close> is
  an exception, with the dataframe as it stands when the exception is raised: at line 115
  for a duplicated column name, before anything is written; at line 118 when the scratch
  column is duplicated or the library raises, after the scratch column is written; at
  line 153 when the subtraction raises, after the scratch column is dropped and before the
  duration is written.
\<close>

definition parse_try ::
  "('n, 't) pandas \<Rightarrow> ('n, 't) frame \<Rightarrow> string \<Rightarrow> string \<Rightarrow> bool
     \<Rightarrow> ('n, 't) frame + ('n, 't) frame \<times> bool" where
  "parse_try api df_result column_name target_format create_derived_fields =
     (let clean_name = column_name @ ''_clean'' in
      if duplicated df_result column_name then Inl df_result
      else
        (let df1 = with_scratch api df_result column_name
         in if duplicated df1 clean_name
               \<or> to_datetime_raises api target_format (cells (getitem df1 clean_name))
            then Inl df1
            else
              (let datetime_series = converted api df1 column_name target_format;
                   valid_dates = length (filter (\<lambda>d. d \<noteq> None) datetime_series);
                   df2 = overwritten api df1 column_name datetime_series create_derived_fields;
                   success = (valid_dates > 0);
                   df3 = drop_col df2 clean_name
               in if duration_wanted df3
                     \<and> subtract_raises api (getitem df3 ''end_time'') (getitem df3 ''start_time'')
                  then Inl df3
                  else Inr (add_duration api df3, success))))"

text \<open>
  \<open>parse_datetime_column\<close>: the test for the column, the \<^verbatim>\<open>try\<close> block, and the handler
  \<^verbatim>\<open>except Exception: return df_result, False\<close>.
\<close>

definition parse_datetime_column ::
  "('n, 't) pandas \<Rightarrow> ('n, 't) frame \<Rightarrow> string \<Rightarrow> string \<Rightarrow> bool \<Rightarrow> ('n, 't) frame \<times> bool" where
  "parse_datetime_column api df column_name target_format create_derived_fields =
     (if \<not> has_col df column_name then (df, False)
      else
        (case parse_try api df column_name target_format create_derived_fields of
           Inr (df_result, success) \<Rightarrow> (df_result, success)
         | Inl df_result \<Rightarrow> (df_result, False)))"

text \<open>A step of the \<^verbatim>\<open>try\<close> block raises.\<close>

definition parse_raises ::
  "('n, 't) pandas \<Rightarrow> ('n, 't) frame \<Rightarrow> string \<Rightarrow> string \<Rightarrow> bool \<Rightarrow> bool" where
  "parse_raises api df column_name target_format create_derived_fields =
     (case parse_try api df column_name target_format create_derived_fields of
        Inl df_result \<Rightarrow> True
      | Inr r \<Rightarrow> False)"

definition default_format :: string where
  "default_format = ''%b %d, %Y %H:%M:%S''"

section \<open>The same functions on a store of dataframes\<close>

text \<open>
  Python passes dataframes by reference. A store holds the dataframes that exist, a
  reference is an index into it, \<^verbatim>\<open>df.copy()\<close> allocates a new dataframe, and every
  assignment \<^verbatim>\<open>df[name] = s\<close> and every \<^verbatim>\<open>drop(..., inplace=True)\<close> changes the
  dataframe behind one reference.
\<close>

type_synonym ('n, 't) store = "('n, 't) frame list"

definition df_copy :: "('n, 't) store \<Rightarrow> nat \<Rightarrow> ('n, 't) store \<times> nat" where
  "df_copy st r = (st @ [st ! r], length st)"

definition update_at :: "nat \<Rightarrow> (('n, 't) frame \<Rightarrow> ('n, 't) frame) \<Rightarrow> ('n, 't) store \<Rightarrow> ('n, 't) store" where
  "update_at r f st = st[r := f (st ! r)]"

definition clean_numeric_data_store ::
  "('n, 't) pandas \<Rightarrow> ('n, 't) store \<Rightarrow> nat \<Rightarrow> string list \<Rightarrow> ('n, 't) store \<times> nat" where
  "clean_numeric_data_store api st df cols =
     (let (st1, df_clean) = df_copy st df;
          st2 = fold (\<lambda>col s. if has_col (s ! df_clean) col
                               then update_at df_clean (clean_column api col) s else s) cols st1
      in (st2, df_clean))"

text \<open>
  The \<^verbatim>\<open>try\<close> block on the store: \<open>Inr\<close> is the normal end with the flag, \<open>Inl\<close> an
  exception; either way the store is the store as the block left it.
\<close>

definition parse_try_store ::
  "('n, 't) pandas \<Rightarrow> ('n, 't) store \<Rightarrow> nat \<Rightarrow> string \<Rightarrow> string \<Rightarrow> bool
     \<Rightarrow> ('n, 't) store + ('n, 't) store \<times> bool" where
  "parse_try_store api st1 df_result column_name target_format create_derived_fields =
     (let clean_name = column_name @ ''_clean'' in
      if duplicated (st1 ! df_result) column_name then Inl st1
      else
        (let st2 = update_at df_result (\<lambda>d. with_scratch api d column_name) st1
         in if duplicated (st2 ! df_result) clean_name
               \<or> to_datetime_raises api target_format (cells (getitem (st2 ! df_result) clean_name))
            then Inl st2
            else
              (let datetime_series = converted api (st2 ! df_result) column_name target_format;
                   valid_dates = length (filter (\<lambda>d. d \<noteq> None) datetime_series);
                   st3 = update_at df_result
                           (\<lambda>d. overwritten api d column_name datetime_series create_derived_fields) st2;
                   success = (valid_dates > 0);
                   st4 = update_at df_result (\<lambda>d. drop_col d clean_name) st3
               in if duration_wanted (st4 ! df_result)
                     \<and> subtract_raises api (getitem (st4 ! df_result) ''end_time'')
                                           (getitem (st4 ! df_result) ''start_time'')
                  then Inl st4
                  else Inr (update_at df_result (add_duration api) st4, success))))"

definition parse_datetime_column_store ::
  "('n, 't) pandas \<Rightarrow> ('n, 't) store \<Rightarrow> nat \<Rightarrow> string \<Rightarrow> string \<Rightarrow> bool
     \<Rightarrow> ('n, 't) store \<times> nat \<times> bool" where
  "parse_datetime_column_store api st df column_name target_format create_derived_fields =
     (if \<not> has_col (st ! df) column_name
      then (let (st1, df_result) = df_copy st df in (st1, df_result, False))
      else
        (let (st1, df_result) = df_copy st df
         in case parse_try_store api st1 df_result column_name target_format create_derived_fields of
              Inr (st2, success) \<Rightarrow> (st2, df_result, success)
            | Inl st2 \<Rightarrow> (st2, df_result, False)))"

section \<open>The site filter (modules/averias.py, modules/desempe\~no.py)\<close>

text \<open>\<^verbatim>\<open>series.isin(values)\<close> and \<^verbatim>\<open>df[mask]\<close>, the selection of rows by a boolean mask.\<close>

definition isin :: "('n, 't) series \<Rightarrow> ('n, 't) cell list \<Rightarrow> bool list" where
  "isin s vals = map (\<lambda>c. c \<in> set vals) (cells s)"

definition select_mask :: "bool list \<Rightarrow> 'a list \<Rightarrow> 'a list" where
  "select_mask keep xs = map snd (filter fst (zip keep xs))"

definition boolean_index :: "bool list \<Rightarrow> ('n, 't) frame \<Rightarrow> ('n, 't) frame" where
  "boolean_index keep df = map (\<lambda>(n, s). (n, Series (dtype_of s) (select_mask keep (cells s)))) df"

text \<open>
  Both dashboards build the options of the multiselect with \<^verbatim>\<open>sorted(...)\<close> over the
  distinct values of the site column. Python compares a string with a string, a number
  with a number and a timestamp with a timestamp; comparing values of two kinds raises
  \<^verbatim>\<open>TypeError\<close>, which no dashboard catches. A missing value is a float (\<^verbatim>\<open>NaN\<close>), and
  \<^verbatim>\<open>NaT\<close> in a datetime column. The order of the sorted list only decides the order of
  the options on the screen and is not modelled. When the name of the site column occurs
  more than once among the columns, \<^verbatim>\<open>df[site_col]\<close> is a dataframe, which has no
  \<^verbatim>\<open>unique\<close>: \<^verbatim>\<open>AttributeError\<close>.
\<close>

datatype py_error = TypeError | AttributeError

datatype kind = Text | Number | Time | Date

fun kind_of :: "dtype \<Rightarrow> ('n, 't) cell \<Rightarrow> kind" where
  "kind_of ty (Str s) = Text"
| "kind_of ty (Num n) = Number"
| "kind_of ty (Ts t) = Time"
| "kind_of ty (Day d) = Date"
| "kind_of ty NA = (if ty = DatetimeT then Time else Number)"

definition sorted_raises :: "dtype \<Rightarrow> ('n, 't) cell list \<Rightarrow> bool" where
  "sorted_raises ty vals =
     (case vals of [] \<Rightarrow> False
      | v # vs \<Rightarrow> list_ex (\<lambda>w. kind_of ty w \<noteq> kind_of ty v) vs)"


text \<open>
  The performance dashboard: \<^verbatim>\<open>sorted(df_clean[site_col].unique())\<close>, with no
  \<^verbatim>\<open>dropna\<close>, then the multiselect, then \<^verbatim>\<open>if selected_sites and site_col\<close>.
\<close>

definition performance_site_filter ::
  "('n, 't) frame \<Rightarrow> ('n, 't) cell list \<Rightarrow> py_error + ('n, 't) frame" where
  "performance_site_filter df_clean selected_sites =
     (case find_site_column (Some df_clean) of
        None \<Rightarrow> Inr df_clean
      | Some site_col \<Rightarrow>
          if duplicated df_clean site_col then Inl AttributeError
          else
          (let site = getitem df_clean site_col;
               all_sites = remdups (cells site)
           in if sorted_raises (dtype_of site) all_sites then Inl TypeError
              else if selected_sites \<noteq> []
                then Inr (boolean_index (isin site selected_sites) df_clean)
              else Inr df_clean))"



section \<open>A sample library\<close>

text \<open>
  One record of library functions, for evaluating the model on concrete frames. A number
  is a decimal \<open>(m, k)\<close>, read \<open>m / 10 ^ k\<close>; a timestamp is a civil date and time. The
  readers accept the plain spellings only (an optional minus sign, digits, an optional
  fraction; \<^verbatim>\<open>Aug 18, 2025 06:00:00\<close> under the format \<^verbatim>\<open>%b %d, %Y %H:%M:%S\<close>) and answer
  \<open>None\<close> for everything else.
\<close>

definition digit_char :: "nat \<Rightarrow> char" where
  "digit_char k = ''0123456789'' ! (k mod 10)"

function digits :: "nat \<Rightarrow> string" where
  "digits n = (if n < 10 then [digit_char n] else digits (n div 10) @ [digit_char n])"
  by pat_completeness auto
termination
  by (relation "measure id") auto

definition digit_value :: "char \<Rightarrow> nat" where
  "digit_value c =
     (case map_of (zip ''0123456789'' [0, 1, 2, 3, 4, 5, 6, 7, 8, 9]) c of
        Some k \<Rightarrow> k
      | None \<Rightarrow> 0)"

definition read_nat :: "string \<Rightarrow> nat option" where
  "read_nat s =
     (if s \<noteq> [] \<and> list_all isdigit s then Some (foldl (\<lambda>a c. 10 * a + digit_value c) 0 s)
      else None)"

type_synonym decimal = "int \<times> nat"

definition read_decimal :: "string \<Rightarrow> decimal option" where
  "read_decimal s =
     (let neg = startswith s ''-'';
          body = (if neg then tl s else s);
          sgn = (if neg then - 1 else 1 :: int)
      in case split (CHR ''.'') body of
           [ip] \<Rightarrow> (case read_nat ip of Some a \<Rightarrow> Some (sgn * int a, 0) | None \<Rightarrow> None)
         | [ip, fp] \<Rightarrow>
             (case read_nat ip of
                Some a \<Rightarrow>
                  (case read_nat fp of
                     Some b \<Rightarrow> Some (sgn * int (a * 10 ^ length fp + b), length fp)
                   | None \<Rightarrow> None)
              | None \<Rightarrow> None)
         | _ \<Rightarrow> None)"

definition show_decimal :: "decimal \<Rightarrow> string" where
  "show_decimal d =
     (let m = fst d; k = snd d; a = nat (abs m);
          sgn = (if m < 0 then ''-'' else []);
          ip = digits (a div 10 ^ k);
          fp = digits (a mod 10 ^ k)
      in if k = 0 then sgn @ ip
         else sgn @ ip @ ''.'' @ replicate (k - length fp) (CHR ''0'') @ fp)"

record civil =
  c_year :: nat
  c_month :: nat
  c_day :: nat
  c_hour :: nat
  c_minute :: nat
  c_second :: nat

definition month_names :: "(string \<times> nat) list" where
  "month_names =
     [(''Jan'', 1), (''Feb'', 2), (''Mar'', 3), (''Apr'', 4), (''May'', 5), (''Jun'', 6),
      (''Jul'', 7), (''Aug'', 8), (''Sep'', 9), (''Oct'', 10), (''Nov'', 11), (''Dec'', 12)]"

definition leap_year :: "nat \<Rightarrow> bool" where
  "leap_year y = (y mod 4 = 0 \<and> (y mod 100 \<noteq> 0 \<or> y mod 400 = 0))"

definition days_in_month :: "nat \<Rightarrow> nat \<Rightarrow> nat" where
  "days_in_month y m =
     (if m = 2 then (if leap_year y then 29 else 28)
      else if m \<in> set [4, 6, 9, 11] then 30 else 31)"

definition read_short :: "string \<Rightarrow> nat option" where
  "read_short s = (if length s \<le> 2 then read_nat s else None)"

definition read_civil :: "string \<Rightarrow> civil option" where
  "read_civil s =
     (case split (CHR '' '') s of
        [mon, dayc, yr, tm] \<Rightarrow>
          (case map_of month_names mon of
             Some m \<Rightarrow>
               (case (if dayc \<noteq> [] \<and> last dayc = CHR '','' then read_short (butlast dayc) else None) of
                  Some d \<Rightarrow>
                    (case (if length yr = 4 then read_nat yr else None) of
                       Some y \<Rightarrow>
                         (case map read_short (split (CHR '':'') tm) of
                            [Some h, Some mi, Some se] \<Rightarrow>
                              (if 1 \<le> d \<and> d \<le> days_in_month y m \<and> h < 24 \<and> mi < 60 \<and> se < 60
                               then Some \<lparr>c_year = y, c_month = m, c_day = d,
                                          c_hour = h, c_minute = mi, c_second = se\<rparr>
                               else None)
                          | _ \<Rightarrow> None)
                     | None \<Rightarrow> None)
                | None \<Rightarrow> None)
           | None \<Rightarrow> None)
      | _ \<Rightarrow> None)"

definition pad2 :: "nat \<Rightarrow> string" where
  "pad2 n = [digit_char (n div 10), digit_char n]"

definition pad4 :: "nat \<Rightarrow> string" where
  "pad4 n = [digit_char (n div 1000), digit_char (n div 100), digit_char (n div 10), digit_char n]"

definition show_date :: "civil \<Rightarrow> string" where
  "show_date t = pad4 (c_year t) @ ''-'' @ pad2 (c_month t) @ ''-'' @ pad2 (c_day t)"

definition show_civil :: "civil \<Rightarrow> string" where
  "show_civil t =
     show_date t @ '' '' @ pad2 (c_hour t) @ '':'' @ pad2 (c_minute t) @ '':'' @ pad2 (c_second t)"

text \<open>Days since 1970-01-01, by the usual era computation on the proleptic calendar.\<close>

definition days_from_civil :: "civil \<Rightarrow> int" where
  "days_from_civil t =
     (let y = int (c_year t) - (if c_month t \<le> 2 then 1 else 0);
          era = y div 400;
          yoe = y mod 400;
          mp = (int (c_month t) + 9) mod 12;
          doy = (153 * mp + 2) div 5 + int (c_day t) - 1;
          doe = yoe * 365 + yoe div 4 - yoe div 100 + doy
      in era * 146097 + doe - 719468)"

definition seconds_from_civil :: "civil \<Rightarrow> int" where
  "seconds_from_civil t =
     days_from_civil t * 86400 + int (c_hour t) * 3600 + int (c_minute t) * 60 + int (c_second t)"

definition day_names :: "string list" where
  "day_names = [''Thursday'', ''Friday'', ''Saturday'', ''Sunday'', ''Monday'', ''Tuesday'', ''Wednesday'']"

text \<open>
  A format raises when a \<open>%\<close> is not followed by the letter of a directive. Civil
  timestamps have no time zone, so their difference never raises.
\<close>

fun bad_directive :: "string \<Rightarrow> bool" where
  "bad_directive [] = False"
| "bad_directive [c] = (c = CHR ''%'')"
| "bad_directive (c # d # cs) =
     (if c = CHR ''%'' then d \<notin> set ''aAwdbBmyYHIpMSfzZjUWcxXGuV%'' \<or> bad_directive cs
      else bad_directive (d # cs))"

definition sample_pandas :: "(decimal, civil) pandas" where
  "sample_pandas =
     \<lparr>to_numeric = read_decimal,
      to_datetime = (\<lambda>fmt s. if fmt = ''%b %d, %Y %H:%M:%S'' then read_civil s else None),
      num_str = show_decimal,
      ts_str = show_civil,
      date_str = show_date,
      dt_hour = (\<lambda>t. (int (c_hour t), 0)),
      dt_date = (\<lambda>t. t\<lparr>c_hour := 0, c_minute := 0, c_second := 0\<rparr>),
      dt_day_name = (\<lambda>t. day_names ! nat (days_from_civil t mod 7)),
      dt_month = (\<lambda>t. (int (c_month t), 0)),
      dt_year = (\<lambda>t. (int (c_year t), 0)),
      total_minutes = (\<lambda>e s. ((seconds_from_civil e - seconds_from_civil s) * 100 div 6, 3)),
      to_datetime_raises = (\<lambda>fmt cs. bad_directive fmt),
      subtract_raises = (\<lambda>e s. False)\<rparr>"

section \<open>Dataset detection and upload (utils/data\_loader.py, app.py)\<close>

text \<open>The seven keys of \<^verbatim>\<open>st.session_state["datasets"]\<close>.\<close>

datatype dataset_type =
  Averias | Desempeno | Configuration | Provision | Disponibilidad | Calidad | Proyectos

definition detection_rules :: "(dataset_type \<times> string list) list" where
  "detection_rules =
     [(Averias, [''averia'', ''alarm'', ''fault'']),
      (Desempeno, [''desempe'', ''performance'', ''kpi'']),
      (Configuration, [''config'', ''configuracion'']),
      (Provision, [''provision'', ''provisi'']),
      (Disponibilidad, [''dispon'', ''availability'']),
      (Calidad, [''calidad'', ''quality'']),
      (Proyectos, [''proyecto'', ''project'', ''site''])]"

text \<open>The loop over the rules, in the dictionary's insertion order.\<close>

fun first_rule :: "(dataset_type \<times> string list) list \<Rightarrow> string \<Rightarrow> dataset_type option" where
  "first_rule [] name = None"
| "first_rule ((dataset_type, keywords) # rules) name =
     (if list_ex (\<lambda>keyword. contains name keyword) keywords then Some dataset_type
      else first_rule rules name)"

definition detect_dataset_type :: "string \<Rightarrow> dataset_type option" where
  "detect_dataset_type filename = first_rule detection_rules (lower filename)"

text \<open>
  An uploaded file: its name and what \<^verbatim>\<open>load_csv_file\<close> returns for it, an error
  message (\<open>Inl\<close>) or the dataframe read.
\<close>

record ('n, 't) uploaded_file =
  file_name :: string
  loaded :: "string + ('n, 't) frame"

datatype message =
  Error_message string string
  | Success_message dataset_type nat
  | Warning_not_recognized string

record ('n, 't) session =
  datasets :: "dataset_type \<Rightarrow> ('n, 't) frame option"
  messages :: "message list"

definition initialize_session_state :: "message list \<Rightarrow> ('n, 't) session" where
  "initialize_session_state ms = \<lparr>datasets = (\<lambda>k. None), messages = ms\<rparr>"

text \<open>The body of the loop over the uploaded files in \<^verbatim>\<open>main\<close>.\<close>

definition handle_upload :: "('n, 't) session \<Rightarrow> ('n, 't) uploaded_file \<Rightarrow> ('n, 't) session" where
  "handle_upload st file =
     (case detect_dataset_type (file_name file) of
        Some dataset_type \<Rightarrow>
          (case loaded file of
             Inl error \<Rightarrow> st\<lparr>messages := messages st @ [Error_message (file_name file) error]\<rparr>
           | Inr df \<Rightarrow>
               st\<lparr>datasets := (datasets st)(dataset_type := Some df),
                  messages := messages st @ [Success_message dataset_type (nrows df)]\<rparr>)
      | None \<Rightarrow> st\<lparr>messages := messages st @ [Warning_not_recognized (file_name file)]\<rparr>)"

definition handle_uploads :: "('n, 't) session \<Rightarrow> ('n, 't) uploaded_file list \<Rightarrow> ('n, 't) session" where
  "handle_uploads st files = foldl handle_upload st files"

section \<open>The provisioning drill-down (modules/provision.py)\<close>

text \<open>
  \<^verbatim>\<open>st.session_state.provision_drill_state\<close>: a dictionary with the five keys below.
  Python's \<^verbatim>\<open>None\<close> is \<open>None\<close>.
\<close>

record drill_state =
  current_level :: nat
  selected_departamento :: "string option"
  selected_provincia :: "string option"
  selected_distrito :: "string option"
  selected_localidad :: "string option"

definition initial_drill_state :: drill_state where
  "initial_drill_state =
     \<lparr>current_level = 0, selected_departamento = None, selected_provincia = None,
      selected_distrito = None, selected_localidad = None\<rparr>"

definition reset_lower_levels :: "nat \<Rightarrow> drill_state \<Rightarrow> drill_state" where
  "reset_lower_levels from_level st =
     (let st1 = (if from_level \<le> 1 then st\<lparr>selected_provincia := None\<rparr> else st);
          st2 = (if from_level \<le> 2 then st1\<lparr>selected_distrito := None\<rparr> else st1);
          st3 = (if from_level \<le> 3 then st2\<lparr>selected_localidad := None\<rparr> else st2)
      in st3)"

text \<open>
  The three select boxes. Each takes the value the widget returned in this run
  (\<open>''Seleccionar...''\<close> is the first option of every box) and the stored state.
\<close>

definition select_departamento :: "string \<Rightarrow> drill_state \<Rightarrow> drill_state" where
  "select_departamento selected_dept st =
     (if selected_dept \<noteq> ''Seleccionar...'' then
        (if selected_departamento st \<noteq> Some selected_dept
         then reset_lower_levels 1 (st\<lparr>selected_departamento := Some selected_dept\<rparr>)
         else st)
      else st)"

definition select_provincia :: "string \<Rightarrow> drill_state \<Rightarrow> drill_state" where
  "select_provincia selected_prov st =
     (if selected_prov \<noteq> ''Seleccionar...'' then
        (if selected_provincia st \<noteq> Some selected_prov
         then reset_lower_levels 2 (st\<lparr>selected_provincia := Some selected_prov\<rparr>)
         else st)
      else st)"

definition select_distrito :: "string \<Rightarrow> drill_state \<Rightarrow> drill_state" where
  "select_distrito selected_dist st =
     (if selected_dist \<noteq> ''Seleccionar...'' then
        (if selected_distrito st \<noteq> Some selected_dist
         then reset_lower_levels 3 (st\<lparr>selected_distrito := Some selected_dist\<rparr>)
         else st)
      else st)"

text \<open>The button \<^verbatim>\<open>Reiniciar Navegacion\<close> stores a fresh dictionary.\<close>

definition reiniciar_navegacion :: "drill_state \<Rightarrow> drill_state" where
  "reiniciar_navegacion st = initial_drill_state"

text \<open>
  The transition at level \<open>i\<close> (1 = Departamento, 2 = Provincia, 3 = Distrito); the
  program has no select box at any other level.
\<close>

definition select_level :: "nat \<Rightarrow> string \<Rightarrow> drill_state \<Rightarrow> drill_state" where
  "select_level i v st =
     (if i = 1 then select_departamento v st
      else if i = 2 then select_provincia v st
      else if i = 3 then select_distrito v st
      else st)"

text \<open>The stored selection of level \<open>i\<close> (4 = Localidad).\<close>

definition selection_at :: "nat \<Rightarrow> drill_state \<Rightarrow> string option" where
  "selection_at i st =
     (if i = 1 then selected_departamento st
      else if i = 2 then selected_provincia st
      else if i = 3 then selected_distrito st
      else if i = 4 then selected_localidad st
      else None)"

text \<open>
  The transition that claim C5 describes, written from the specification's words:
  clear the stored selection of level \<open>i\<close> and of every deeper level.
\<close>

definition spec_reset_from_level :: "nat \<Rightarrow> drill_state \<Rightarrow> drill_state" where
  "spec_reset_from_level i st =
     st\<lparr>selected_departamento := (if i \<le> 1 then None else selected_departamento st),
        selected_provincia := (if i \<le> 2 then None else selected_provincia st),
        selected_distrito := (if i \<le> 3 then None else selected_distrito st),
        selected_localidad := (if i \<le> 4 then None else selected_localidad st)\<rparr>"

text \<open>A state with all four levels selected, for evaluating the transitions.\<close>

definition example_drill_state :: drill_state where
  "example_drill_state =
     \<lparr>current_level = 0, selected_departamento = Some ''CUSCO'',
      selected_provincia = Some ''URUBAMBA'', selected_distrito = Some ''OLLANTAYTAMBO'',
      selected_localidad = Some ''PISCACUCHO''\<rparr>"

text \<open>
  The policy of claim C2, written from the specification's words and applied to the input
  string as it is: no digit gives missing; a comma and a period, strip the commas; only
  commas, exactly two groups and the second one to three digits long, the comma becomes
  the decimal point; only commas otherwise, strip them; otherwise the string is unchanged.
\<close>

definition spec_policy :: "string \<Rightarrow> string option" where
  "spec_policy s =
     (if \<not> list_ex isdigit s then None
      else if CHR '','' \<in> set s \<and> CHR ''.'' \<in> set s then Some (filter (\<lambda>c. c \<noteq> CHR '','') s)
      else if CHR '','' \<in> set s \<and> length (split (CHR '','') s) = 2
              \<and> 1 \<le> length (split (CHR '','') s ! 1) \<and> length (split (CHR '','') s ! 1) \<le> 3
              \<and> list_all isdigit (split (CHR '','') s ! 1)
        then Some (map (\<lambda>c. if c = CHR '','' then CHR ''.'' else c) s)
      else if CHR '','' \<in> set s then Some (filter (\<lambda>c. c \<noteq> CHR '','') s)
      else Some s)"

text \<open>A column holding the test vectors of the specification.\<close>

definition frame_kpi :: "(decimal, civil) frame" where
  "frame_kpi =
     [(''kpi'', Series ObjectT [Str ''23,418.082'', Str ''123,45'', Str ''1,234'', Str [], Str ''nan''])]"

text \<open>Frames and files for evaluating the lookup and the upload handler.\<close>

definition frame_Site :: "(nat, nat) frame" where
  "frame_Site = [(''Site'', Series ObjectT [Str ''LIM001'', Str ''CUS002''])]"

definition frame_SITE :: "(nat, nat) frame" where
  "frame_SITE = [(''SITE'', Series ObjectT [Str ''LIM001'', Str ''CUS002''])]"

definition frame_site_name :: "(nat, nat) frame" where
  "frame_site_name =
     [(''region'', Series ObjectT [Str ''LIMA'', Str ''CUSCO'']),
      (''site'', Series ObjectT [Str ''LIM001'', Str ''CUS002'']),
      (''site_name'', Series ObjectT [Str ''Lima 1'', Str ''Cusco 2''])]"

definition file_notas :: "(nat, nat) uploaded_file" where
  "file_notas = \<lparr>file_name = ''Notas_2025.csv'', loaded = Inr frame_Site\<rparr>"

definition session_one :: "(nat, nat) session" where
  "session_one = \<lparr>datasets = (\<lambda>k. None)(Proyectos := Some frame_SITE), messages = []\<rparr>"

text \<open>A small fault dataset.\<close>

definition frame_faults :: "(decimal, civil) frame" where
  "frame_faults =
     [(''alarm_id'', Series ObjectT [Str ''A1'', Str ''A2'', Str ''A3'', Str ''A4'']),
      (''site'', Series ObjectT [Str ''LIM001'', Str ''CUS002'', NA, Str ''LIM001'']),
      (''alarm_status'', Series ObjectT [Str ''active'', Str ''cleared'', Str ''active'', Str ''cleared''])]"

text \<open>
  A cell parses under a format when cleaning it gives a string and the library reads that
  string as a timestamp.
\<close>

definition parses :: "('n, 't) pandas \<Rightarrow> string \<Rightarrow> ('n, 't) cell \<Rightarrow> bool" where
  "parses api target_format v =
     (case clean_date_format api v of
        None \<Rightarrow> False
      | Some s \<Rightarrow> to_datetime api target_format s \<noteq> None)"


definition frame_times :: "(decimal, civil) frame" where
  "frame_times =
     [(''site'', Series ObjectT [Str ''LIM001'', Str ''CUS002'']),
      (''start_time'', Series ObjectT [Str ''Aug 18, 2025 @ 06:00:00.000'', Str ''soon''])]"

definition frame_untimed :: "(decimal, civil) frame" where
  "frame_untimed =
     [(''site'', Series ObjectT [Str ''LIM001'', Str ''CUS002'']),
      (''start_time'', Series ObjectT [Str ''yesterday'', NA])]"

text \<open>Every column of the dataframe has \<open>k\<close> rows.\<close>

definition all_rows :: "nat \<Rightarrow> ('n, 't) frame \<Rightarrow> bool" where
  "all_rows k df = list_all (\<lambda>(n, s). length (cells s) = k) df"

text \<open>
  The columns that \<open>parse_datetime_column\<close> may write besides the requested one: the five
  derived fields and the duration.
\<close>

definition derived_names :: "string list" where
  "derived_names = [''hour'', ''date'', ''day_of_week'', ''month'', ''year'', ''duration_minutes'']"

definition frame_scratch :: "(decimal, civil) frame" where
  "frame_scratch =
     [(''start_time'', Series ObjectT [Str ''Aug 18, 2025 @ 06:00:00.000'', Str ''soon'']),
      (''start_time_clean'', Series ObjectT [Str ''2025-08-18'', Str ''unknown''])]"

definition frame_perf :: "(decimal, civil) frame" where
  "frame_perf =
     [(''site'', Series ObjectT [Str ''LIM001'', Str ''CUS002'']),
      (''start_time'', Series ObjectT [Str ''Aug 18, 2025 @ 06:00:00.000'', Str ''soon'']),
      (''kpi'', Series ObjectT [Str ''123,45'', Str ''nan''])]"

text \<open>
  What re-running the normalizers needs from the library. A number prints plainly when its
  string has no surrounding whitespace, no double quote and no comma, has a digit, and reads
  back as the same number. Reparsing a timestamp is cleaning its string and reading it
  under the format.
\<close>

definition prints_plainly :: "('n, 't) pandas \<Rightarrow> 'n \<Rightarrow> bool" where
  "prints_plainly api n =
     (let s = num_str api n
      in strip s = s \<and> CHR 0x22 \<notin> set s \<and> CHR '','' \<notin> set s \<and> list_ex isdigit s
         \<and> to_numeric api s = Some n)"

definition reparse :: "('n, 't) pandas \<Rightarrow> string \<Rightarrow> 't \<Rightarrow> 't option" where
  "reparse api target_format t =
     (case clean_date_format api (Ts t) of
        None \<Rightarrow> None
      | Some s \<Rightarrow> to_datetime api target_format s)"

text \<open>A column as \<^verbatim>\<open>pd.to_numeric\<close> leaves it: numbers and missing values.\<close>

fun number_or_na :: "('n, 't) cell \<Rightarrow> bool" where
  "number_or_na NA = True"
| "number_or_na (Num n) = True"
| "number_or_na c = False"

definition numeric_col :: "('n, 't) series \<Rightarrow> bool" where
  "numeric_col s = (dtype_of s = NumberT \<and> list_all number_or_na (cells s))"

text \<open>The dataframe of the \<^verbatim>\<open>try\<close> block when it reaches the duration block (line 147).\<close>

definition before_duration ::
  "('n, 't) pandas \<Rightarrow> ('n, 't) frame \<Rightarrow> string \<Rightarrow> string \<Rightarrow> bool \<Rightarrow> ('n, 't) frame" where
  "before_duration api df c fmt flag =
     drop_col
       (overwritten api (with_scratch api df c) c (converted api (with_scratch api df c) c fmt) flag)
       (c @ ''_clean'')"

text \<open>A dataframe with two columns of the same name, as lower-casing the column names can give.\<close>

definition frame_twice :: "(decimal, civil) frame" where
  "frame_twice =
     [(''start_time'', Series ObjectT [Str ''Aug 18, 2025 @ 06:00:00.000'']),
      (''start_time'', Series ObjectT [Str ''Aug 18, 2025 @ 06:00:00.000''])]"

text \<open>
  A column of numbers that all print plainly, and what one more run of the date
  normalizer makes of a value: its string, cleaned and read under the format.
\<close>

definition settled :: "('n, 't) pandas \<Rightarrow> ('n, 't) frame \<Rightarrow> string \<Rightarrow> bool" where
  "settled api df col =
     (numeric_col (getitem df col) \<and> list_all (\<lambda>c. case c of Num n \<Rightarrow> prints_plainly api n | _ \<Rightarrow> True) (cells (getitem df col)))"

definition reclean :: "('n, 't) pandas \<Rightarrow> string \<Rightarrow> ('n, 't) cell \<Rightarrow> ('n, 't) cell" where
  "reclean api fmt v = ts_cell (to_datetime_cell api fmt (opt_cell (clean_date_format api v)))"

section \<open>Theorems\<close>

subsection \<open>Strings\<close>

lemma startswith_iff: "startswith s p \<longleftrightarrow> (\<exists>q. s = p @ q)"
  by (induction s p rule: startswith.induct) auto

lemma contains_iff: "contains s k \<longleftrightarrow> (\<exists>p q. s = p @ k @ q)"
proof (induction s)
  case Nil
  then show ?case by simp
next
  case (Cons c cs)
  show ?case
  proof
    assume "contains (c # cs) k"
    then consider "startswith (c # cs) k" | "contains cs k" by auto
    then show "\<exists>p q. c # cs = p @ k @ q"
    proof cases
      case 1
      then obtain q where "c # cs = k @ q" by (auto simp: startswith_iff)
      then have "c # cs = [] @ k @ q" by simp
      then show ?thesis by blast
    next
      case 2
      with Cons obtain p q where "cs = p @ k @ q" by blast
      then have "c # cs = (c # p) @ k @ q" by simp
      then show ?thesis by blast
    qed
  next
    assume "\<exists>p q. c # cs = p @ k @ q"
    then obtain p q where pq: "c # cs = p @ k @ q" by blast
    show "contains (c # cs) k"
    proof (cases p)
      case Nil
      with pq have "startswith (c # cs) k" unfolding startswith_iff by auto
      then show ?thesis by simp
    next
      case (Cons a p')
      with pq have "cs = p' @ k @ q" by simp
      with Cons.IH show ?thesis by auto
    qed
  qed
qed


subsection \<open>Drill-down\<close>

text \<open>
  C4. Selecting at level \<open>i\<close> (1, 2 or 3) a value that is not the placeholder and differs
  from the stored selection of that level stores the value at level \<open>i\<close>, clears every
  deeper level up to Localidad, and leaves the shallower levels as they were.
\<close>

theorem select_level_clears_deeper:
  assumes "i \<in> {1, 2, 3}"
    and "v \<noteq> ''Seleccionar...''"
    and "selection_at i st \<noteq> Some v"
  shows "selection_at i (select_level i v st) = Some v
       \<and> (\<forall>j. i < j \<and> j \<le> 4 \<longrightarrow> selection_at j (select_level i v st) = None)
       \<and> (\<forall>j. j < i \<longrightarrow> selection_at j (select_level i v st) = selection_at j st)"
  using assms
  by (auto simp: select_level_def selection_at_def select_departamento_def
      select_provincia_def select_distrito_def reset_lower_levels_def)

theorem select_level_clears_deeper_witness:
  "(2::nat) \<in> {1, 2, 3} \<and> ''CALCA'' \<noteq> ''Seleccionar...''
   \<and> selection_at 2 example_drill_state \<noteq> Some ''CALCA''
   \<and> selection_at 1 (select_level 2 ''CALCA'' example_drill_state) = Some ''CUSCO''
   \<and> selection_at 2 (select_level 2 ''CALCA'' example_drill_state) = Some ''CALCA''
   \<and> selection_at 3 (select_level 2 ''CALCA'' example_drill_state) = None
   \<and> selection_at 4 (select_level 2 ''CALCA'' example_drill_state) = None"
proof -
  have h1: "(2::nat) \<in> {1, 2, 3}" by simp
  have h2: "''CALCA'' \<noteq> ''Seleccionar...''" by simp
  have h3: "selection_at 2 example_drill_state \<noteq> Some ''CALCA''"
    by (simp add: selection_at_def example_drill_state_def)
  have h4: "selection_at 1 example_drill_state = Some ''CUSCO''"
    by (simp add: selection_at_def example_drill_state_def)
  from select_level_clears_deeper [OF h1 h2 h3] h1 h2 h3 h4 show ?thesis
    by simp
qed

text \<open>
  C5 as stated: choosing the placeholder \<open>''Seleccionar...''\<close> at a level gives the state
  in which that level and every deeper one are cleared. It fails: at level 1 the stored
  Departamento stays.
\<close>

theorem placeholder_is_not_reset_counterexample:
  "select_level 1 ''Seleccionar...'' example_drill_state \<noteq> spec_reset_from_level 1 example_drill_state
   \<and> selection_at 1 (select_level 1 ''Seleccionar...'' example_drill_state) = Some ''CUSCO''
   \<and> select_level 1 ''Seleccionar...'' example_drill_state \<noteq> reiniciar_navegacion example_drill_state"
  by (simp add: select_level_def select_departamento_def spec_reset_from_level_def
      selection_at_def example_drill_state_def reiniciar_navegacion_def initial_drill_state_def)

text \<open>
  C5 amended: choosing the placeholder \<open>''Seleccionar...''\<close> in the select box of any level
  leaves the stored drill-down state as it is: neither that level's selection nor any
  deeper one is cleared.
\<close>

theorem placeholder_leaves_state:
  "select_departamento ''Seleccionar...'' st = st
   \<and> select_provincia ''Seleccionar...'' st = st
   \<and> select_distrito ''Seleccionar...'' st = st
   \<and> select_level i ''Seleccionar...'' st = st"
  by (simp add: select_level_def select_departamento_def select_provincia_def
      select_distrito_def)

subsection \<open>Site column lookup\<close>

text \<open>
  C8 as stated: a dataframe whose only site column is named \<open>Site\<close> or \<open>SITE\<close> is found,
  the lookup being case-insensitive. It fails: both names lower-case to \<open>site\<close>, and the
  lookup returns nothing for either frame.
\<close>

theorem find_site_column_case_counterexample:
  "lower ''Site'' = ''site'' \<and> has_col frame_Site ''Site''
   \<and> find_site_column (Some frame_Site) = None
   \<and> lower ''SITE'' = ''site'' \<and> has_col frame_SITE ''SITE''
   \<and> find_site_column (Some frame_SITE) = None"
  by (simp add: lower_def lower_char_def find_site_column_def site_columns_def has_col_def
      columns_def frame_Site_def frame_SITE_def)

text \<open>
  C8 amended: the lookup compares names exactly (case-sensitively). It returns the first of
  \<open>Site_Name\<close>, \<open>site_name\<close>, \<open>SITE_NAME\<close>, \<open>site\<close>, in this order, that is the name of a
  column of the dataframe, and nothing when none of the four is, or when there is no
  dataframe.
\<close>

theorem find_site_column_exact:
  "find_site_column None = None
   \<and> find_site_column (Some df) =
       (if ''Site_Name'' \<in> fst ` set df then Some ''Site_Name''
        else if ''site_name'' \<in> fst ` set df then Some ''site_name''
        else if ''SITE_NAME'' \<in> fst ` set df then Some ''SITE_NAME''
        else if ''site'' \<in> fst ` set df then Some ''site''
        else None)"
  by (simp add: find_site_column_def site_columns_def has_col_def columns_def)

subsection \<open>Dataset detection and upload\<close>

lemma first_rule_None: "first_rule rules name = None \<longleftrightarrow> (\<forall>(ty, kws) \<in> set rules. \<forall>k \<in> set kws. \<not> contains name k)"
  by (induction rules name rule: first_rule.induct) (auto simp: list_ex_iff)

lemma first_rule_Some: "first_rule rules name = Some ty \<Longrightarrow>
   \<exists>pre kws post. rules = pre @ (ty, kws) # post \<and> (\<exists>k \<in> set kws. contains name k)
      \<and> (\<forall>(ty', kws') \<in> set pre. \<forall>k \<in> set kws'. \<not> contains name k)"
proof (induction rules)
  case Nil
  then show ?case by simp
next
  case (Cons r rules)
  obtain ty0 kws0 where r: "r = (ty0, kws0)" by (cases r)
  show ?case
  proof (cases "list_ex (\<lambda>keyword. contains name keyword) kws0")
    case True
    with Cons.prems r have ty: "ty = ty0" by simp
    from True have ex: "\<exists>k \<in> set kws0. contains name k" by (simp add: list_ex_iff)
    have "r # rules = [] @ (ty, kws0) # rules" using r ty by simp
    moreover have "\<forall>(ty', kws') \<in> set []. \<forall>k \<in> set kws'. \<not> contains name k" by simp
    ultimately show ?thesis using ex by blast
  next
    case False
    with Cons.prems r have "first_rule rules name = Some ty" by simp
    from Cons.IH [OF this] obtain pre kws post where
      h1: "rules = pre @ (ty, kws) # post" and h2: "\<exists>k \<in> set kws. contains name k"
      and h3: "\<forall>(ty', kws') \<in> set pre. \<forall>k \<in> set kws'. \<not> contains name k" by blast
    have a: "r # rules = (r # pre) @ (ty, kws) # post" using h1 by simp
    from False have "\<forall>k \<in> set kws0. \<not> contains name k" by (simp add: list_ex_iff)
    with h3 r have b: "\<forall>(ty', kws') \<in> set (r # pre). \<forall>k \<in> set kws'. \<not> contains name k" by simp
    from a h2 b show ?thesis by blast
  qed
qed

lemma first_rule_first:
  "(\<forall>(ty', kws') \<in> set pre. \<forall>k \<in> set kws'. \<not> contains name k) \<Longrightarrow>
   (\<exists>k \<in> set kws. contains name k) \<Longrightarrow>
   first_rule (pre @ (ty, kws) # post) name = Some ty"
  by (induction pre) (auto simp: list_ex_iff)

text \<open>
  C9 as stated: a category is returned exactly when the lower-cased file name contains one
  of that category's keywords. It fails where two categories have a keyword in the name:
  \<open>site_config.csv\<close> contains \<open>site\<close>, a keyword of Proyectos, and the function returns
  Configuration, whose rule comes earlier, and not Proyectos.
\<close>

theorem detect_dataset_type_overlap_counterexample:
  "(Proyectos, [''proyecto'', ''project'', ''site'']) \<in> set detection_rules
   \<and> contains (lower ''site_config.csv'') ''site''
   \<and> detect_dataset_type ''site_config.csv'' = Some Configuration
   \<and> detect_dataset_type ''site_config.csv'' \<noteq> Some Proyectos"
  by (simp add: detect_dataset_type_def detection_rules_def lower_def lower_char_def)

text \<open>
  C9 amended. \<open>detect_dataset_type\<close> tries the rules in their order (Averias, Desempeno,
  Configuration, Provision, Disponibilidad, Calidad, Proyectos) and returns a category
  exactly when that category has a keyword that the lower-cased file name contains and no
  rule before it has one; it returns no category exactly when the lower-cased name contains
  no keyword of any category. For a file whose name is not recognised, the upload handler
  appends the warning and leaves every entry of the session's datasets as it was.
\<close>

theorem detect_dataset_type_keywords:
  "(detect_dataset_type filename = None \<longleftrightarrow>
      (\<forall>(ty, kws) \<in> set detection_rules. \<forall>k \<in> set kws. \<not> contains (lower filename) k))
   \<and> (detect_dataset_type filename = Some ty \<longleftrightarrow>
        (\<exists>pre kws post. detection_rules = pre @ (ty, kws) # post
           \<and> (\<exists>k \<in> set kws. contains (lower filename) k)
           \<and> (\<forall>(ty', kws') \<in> set pre. \<forall>k \<in> set kws'. \<not> contains (lower filename) k)))
   \<and> (detect_dataset_type (file_name file) = None \<longrightarrow>
        datasets (handle_upload st file) = datasets st
        \<and> messages (handle_upload st file) = messages st @ [Warning_not_recognized (file_name file)])"
proof (intro conjI impI)
  show "detect_dataset_type filename = None \<longleftrightarrow>
      (\<forall>(ty, kws) \<in> set detection_rules. \<forall>k \<in> set kws. \<not> contains (lower filename) k)"
    unfolding detect_dataset_type_def by (rule first_rule_None)
next
  show "detect_dataset_type filename = Some ty \<longleftrightarrow>
        (\<exists>pre kws post. detection_rules = pre @ (ty, kws) # post
           \<and> (\<exists>k \<in> set kws. contains (lower filename) k)
           \<and> (\<forall>(ty', kws') \<in> set pre. \<forall>k \<in> set kws'. \<not> contains (lower filename) k))"
  proof
    assume "detect_dataset_type filename = Some ty"
    then show "\<exists>pre kws post. detection_rules = pre @ (ty, kws) # post
           \<and> (\<exists>k \<in> set kws. contains (lower filename) k)
           \<and> (\<forall>(ty', kws') \<in> set pre. \<forall>k \<in> set kws'. \<not> contains (lower filename) k)"
      unfolding detect_dataset_type_def by (rule first_rule_Some)
  next
    assume "\<exists>pre kws post. detection_rules = pre @ (ty, kws) # post
           \<and> (\<exists>k \<in> set kws. contains (lower filename) k)
           \<and> (\<forall>(ty', kws') \<in> set pre. \<forall>k \<in> set kws'. \<not> contains (lower filename) k)"
    then obtain pre kws post where r: "detection_rules = pre @ (ty, kws) # post"
      and k: "\<exists>k \<in> set kws. contains (lower filename) k"
      and p: "\<forall>(ty', kws') \<in> set pre. \<forall>k \<in> set kws'. \<not> contains (lower filename) k"
      by blast
    from first_rule_first [OF p k, of ty post] r
    show "detect_dataset_type filename = Some ty" by (simp add: detect_dataset_type_def)
  qed
next
  assume "detect_dataset_type (file_name file) = None"
  then show "datasets (handle_upload st file) = datasets st"
    by (simp add: handle_upload_def)
next
  assume "detect_dataset_type (file_name file) = None"
  then show "messages (handle_upload st file) = messages st @ [Warning_not_recognized (file_name file)]"
    by (simp add: handle_upload_def)
qed

theorem detect_dataset_type_keywords_witness:
  "detect_dataset_type ''Reporte_KPI_Site.csv'' = Some Desempeno
   \<and> contains (lower ''Reporte_KPI_Site.csv'') ''kpi''
   \<and> detect_dataset_type (file_name file_notas) = None
   \<and> datasets (handle_upload session_one file_notas) = datasets session_one
   \<and> datasets (handle_upload session_one file_notas) Proyectos = Some frame_SITE
   \<and> messages (handle_upload session_one file_notas) = [Warning_not_recognized ''Notas_2025.csv'']"
proof -
  have d1: "detect_dataset_type ''Reporte_KPI_Site.csv'' = Some Desempeno"
    by (simp add: detect_dataset_type_def detection_rules_def lower_def lower_char_def)
  have c1: "contains (lower ''Reporte_KPI_Site.csv'') ''kpi''"
    by (simp add: lower_def lower_char_def)
  have d2: "detect_dataset_type (file_name file_notas) = None"
    by (simp add: file_notas_def detect_dataset_type_def detection_rules_def lower_def lower_char_def)
  have s1: "datasets session_one Proyectos = Some frame_SITE" "messages session_one = []"
    "file_name file_notas = ''Notas_2025.csv''"
    by (simp_all add: session_one_def file_notas_def)
  from detect_dataset_type_keywords [of "''Reporte_KPI_Site.csv''" Desempeno file_notas session_one]
    d1 c1 d2 s1
  show ?thesis by simp
qed

subsection \<open>The numeric normalizer\<close>

lemma contains_single: "contains s [d] \<longleftrightarrow> d \<in> set s"
  by (induction s) auto

lemma replace_delete: "replace [d] [] s = filter (\<lambda>c. c \<noteq> d) s"
  by (induction s) auto

lemma replace_char: "replace [d] [e] s = map (\<lambda>c. if c = d then e else c) s"
  by (induction s) auto

lemma split_nonempty: "split d s \<noteq> []"
  by (induction s) (auto split: list.splits)

lemma split_length: "length (split d s) = Suc (count_list s d)"
proof (induction s)
  case Nil
  then show ?case by simp
next
  case (Cons c cs)
  then show ?case using split_nonempty [of d cs] by (auto split: list.splits)
qed

lemma split_hd: "hd (split d s) = takeWhile (\<lambda>c. c \<noteq> d) s"
  using split_nonempty by (induction s) (auto split: list.splits)

lemma split_second:
  "count_list s d = 1 \<Longrightarrow> split d s ! 1 = tl (dropWhile (\<lambda>c. c \<noteq> d) s)"
proof (induction s)
  case Nil
  then show ?case by simp
next
  case (Cons c cs)
  show ?case
  proof (cases "c = d")
    case True
    with Cons.prems have zero: "count_list cs d = 0" by simp
    then have notin: "d \<notin> set cs" by (simp add: count_list_0_iff)
    have "length (split d cs) = 1" using zero by (simp add: split_length)
    then obtain g where g: "split d cs = [g]" by (cases "split d cs") auto
    have "g = takeWhile (\<lambda>c. c \<noteq> d) cs" using split_hd [of d cs] g by simp
    also have "\<dots> = cs" using notin by (auto intro: takeWhile_eq_all_conv [THEN iffD2])
    finally show ?thesis using True g by simp
  next
    case False
    with Cons.prems have one: "count_list cs d = 1" by simp
    from Cons.IH [OF this] have ih: "split d cs ! 1 = tl (dropWhile (\<lambda>c. c \<noteq> d) cs)" .
    have "length (split d cs) = 2" using one by (simp add: split_length)
    then obtain g h where "split d cs = [g, h]"
      by (cases "split d cs"; cases "tl (split d cs)") auto
    with ih False show ?thesis by simp
  qed
qed

lemma two_groups:
  "(length (split d s) = 2 \<and> length (split d s ! 1) \<le> 3 \<and> length (split d s ! 1) > 0)
     \<longleftrightarrow> (count_list s d = 1 \<and> 1 \<le> length (tl (dropWhile (\<lambda>c. c \<noteq> d) s))
           \<and> length (tl (dropWhile (\<lambda>c. c \<noteq> d) s)) \<le> 3)"
proof (cases "count_list s d = 1")
  case True
  have "length (split d s) = 2" using True by (simp add: split_length)
  moreover have "split d s ! 1 = tl (dropWhile (\<lambda>c. c \<noteq> d) s)" using True by (rule split_second)
  ultimately show ?thesis using True by auto
next
  case False
  then have "length (split d s) \<noteq> 2" by (simp add: split_length)
  with False show ?thesis by simp
qed

lemmas cell_eval = clean_european_number_def strip_def isspace_def isdigit_def

lemma vector_cells:
  "clean_european_number sample_pandas (Str ''23,418.082'') = Some ''23418.082''"
  "clean_european_number sample_pandas (Str ''123,45'') = Some ''123.45''"
  "clean_european_number sample_pandas (Str ''1,234'') = Some ''1.234''"
  "clean_european_number sample_pandas (Str []) = None"
  "clean_european_number sample_pandas (Str ''nan'') = None"
  by (simp_all add: cell_eval)

lemma vector_numbers:
  "read_decimal ''23418.082'' = Some (23418082, 3)"
  "read_decimal ''123.45'' = Some (12345, 2)"
  "read_decimal ''1.234'' = Some (1234, 3)"
  "read_decimal ''1234'' = Some (1234, 0)"
  by (simp_all add: read_decimal_def read_nat_def isdigit_def digit_value_def)

text \<open>
  C1. The normalizer on the test vectors of the specification. Four of the five come out
  as stated. For \<open>1,234\<close> the string handed to the numeric conversion is \<open>1.234\<close>, so
  the value is 1.234 (the decimal \<open>(1234, 3)\<close>) and not 1234 (the decimal \<open>(1234, 0)\<close>,
  which is what the string \<open>1234\<close> reads as).
\<close>

theorem normalizer_test_vectors:
  "clean_numeric_data sample_pandas frame_kpi [''kpi'']
     = [(''kpi'', Series NumberT [Num (23418082, 3), Num (12345, 2), Num (1234, 3), NA, NA])]
   \<and> clean_european_number sample_pandas (Str ''1,234'') = Some ''1.234''
   \<and> to_numeric sample_pandas ''1.234'' = Some (1234, 3)
   \<and> to_numeric sample_pandas ''1234'' = Some (1234, 0)"
  using vector_cells vector_numbers
  by (simp add: frame_kpi_def clean_numeric_data_def clean_column_def has_col_def columns_def
      set_col_def getitem_def get_col_def pd_to_numeric_def sample_pandas_def)

text \<open>
  C2 as stated: the policy is applied to the input string. It fails: the normalizer first
  trims the string and deletes every double quote, and it measures the second group in
  characters, not digits. The quoted string \<open>"7"\<close> does not pass through unchanged
  (it becomes \<open>7\<close>, a number, where the unchanged string is not one), and \<open>1,2e3\<close>
  gets a decimal point where the stated policy strips the comma.
\<close>

theorem normalizer_policy_counterexample:
  "clean_european_number sample_pandas (Str [CHR 0x22, CHR ''7'', CHR 0x22]) = Some ''7''
   \<and> spec_policy [CHR 0x22, CHR ''7'', CHR 0x22] = Some [CHR 0x22, CHR ''7'', CHR 0x22]
   \<and> to_numeric sample_pandas ''7'' = Some (7, 0)
   \<and> to_numeric sample_pandas [CHR 0x22, CHR ''7'', CHR 0x22] = None
   \<and> clean_european_number sample_pandas (Str ''1,2e3'') = Some ''1.2e3''
   \<and> spec_policy ''1,2e3'' = Some ''12e3''"
  by (simp add: cell_eval spec_policy_def sample_pandas_def read_decimal_def read_nat_def
      digit_value_def)

lemma clean_european_number_unfold:
  "clean_european_number api v =
     (if v = NA then None
      else
        (let s = filter (\<lambda>c. c \<noteq> CHR 0x22) (strip (py_str api v));
             frac = tl (dropWhile (\<lambda>c. c \<noteq> CHR '','') s)
         in if \<not> list_ex isdigit s then None
            else if CHR '','' \<in> set s \<and> CHR ''.'' \<in> set s
              then Some (filter (\<lambda>c. c \<noteq> CHR '','') s)
            else if CHR '','' \<in> set s
              then (if count_list s (CHR '','') = 1 \<and> 1 \<le> length frac \<and> length frac \<le> 3
                    then Some (map (\<lambda>c. if c = CHR '','' then CHR ''.'' else c) s)
                    else Some (filter (\<lambda>c. c \<noteq> CHR '','') s))
            else Some s))"
  unfolding clean_european_number_def Let_def contains_single replace_delete replace_char two_groups
  by simp

text \<open>
  C2 amended: for every value that is not missing, let \<open>s\<close> be its string with the
  surrounding whitespace trimmed and every double quote deleted. The normalizer returns
  missing if \<open>s\<close> has no digit; \<open>s\<close> without its commas if \<open>s\<close> has a comma and a period;
  \<open>s\<close> with the comma replaced by a period if \<open>s\<close> has exactly one comma, no period, and
  one to three characters (of any kind) after the comma; \<open>s\<close> without its commas if it has
  commas otherwise; and \<open>s\<close> itself if it has no comma. A missing value stays missing.
\<close>

theorem clean_european_number_policy:
  "clean_european_number api v =
     (if v = NA then None
      else
        (let s = filter (\<lambda>c. c \<noteq> CHR 0x22) (strip (py_str api v));
             frac = tl (dropWhile (\<lambda>c. c \<noteq> CHR '','') s)
         in if \<not> list_ex isdigit s then None
            else if CHR '','' \<in> set s \<and> CHR ''.'' \<in> set s
              then Some (filter (\<lambda>c. c \<noteq> CHR '','') s)
            else if CHR '','' \<in> set s
              then (if count_list s (CHR '','') = 1 \<and> 1 \<le> length frac \<and> length frac \<le> 3
                    then Some (map (\<lambda>c. if c = CHR '','' then CHR ''.'' else c) s)
                    else Some (filter (\<lambda>c. c \<noteq> CHR '','') s))
            else Some s))"
  by (rule clean_european_number_unfold)

subsection \<open>The site filter\<close>





lemma distinct_not_duplicated: "distinct (columns df) \<Longrightarrow> \<not> duplicated df a"
proof -
  assume "distinct (columns df)"
  then have "count_list (columns df) a \<le> 1"
    by (induction "columns df" arbitrary: df) (auto simp: count_list_0_iff columns_def)
  then show ?thesis by (simp add: duplicated_def)
qed


lemmas frame_eval = has_col_def columns_def get_col_def getitem_def set_col_def drop_col_def
  nrows_def wf_frame_def


text \<open>
  The performance dashboard on a site column that holds a missing value beside strings:
  \<^verbatim>\<open>sorted\<close> raises before any selection exists.
\<close>

lemma performance_site_filter_raises:
  "performance_site_filter frame_faults sel = Inl TypeError"
  by (simp add: performance_site_filter_def frame_faults_def find_site_column_def site_columns_def
      frame_eval sorted_raises_def duplicated_def)

text \<open>
  A site column read from a file holds strings and missing values only
  (\<^verbatim>\<open>pd.read_csv(..., dtype=str)\<close>); the faults dashboard can always sort it.
\<close>

lemma sorted_raises_one_kind:
  assumes "\<forall>v \<in> set vals. kind_of ty v = k"
  shows "\<not> sorted_raises ty vals"
proof (cases vals)
  case Nil
  then show ?thesis by (simp add: sorted_raises_def)
next
  case (Cons v vs)
  with assms show ?thesis by (simp add: sorted_raises_def list_ex_iff)
qed

lemma averias_sorts_strings:
  assumes "\<forall>v \<in> set (cells s). v = NA \<or> (\<exists>x. v = Str x)"
  shows "\<not> sorted_raises (dtype_of s) (remdups (filter (\<lambda>c. c \<noteq> NA) (cells s)))"
proof (rule sorted_raises_one_kind [where k = Text])
  show "\<forall>v \<in> set (remdups (filter (\<lambda>c. c \<noteq> NA) (cells s))). kind_of (dtype_of s) v = Text"
    using assms by auto
qed

subsection \<open>Columns of a dataframe\<close>

lemma has_col_iff: "has_col df a \<longleftrightarrow> get_col df a \<noteq> None"
  by (simp add: has_col_def columns_def get_col_def map_of_eq_None_iff)

lemma map_of_replace_other:
  "b \<noteq> a \<Longrightarrow> map_of (map (\<lambda>(n, old). if n = a then (n, s) else (n, old)) xs) b = map_of xs b"
  by (induction xs) auto

lemma map_of_replace_same:
  "a \<in> fst ` set xs \<Longrightarrow> map_of (map (\<lambda>(n, old). if n = a then (n, s) else (n, old)) xs) a = Some s"
  by (induction xs) auto

lemma get_col_set_col: "get_col (set_col df a s) b = (if a = b then Some s else get_col df b)"
proof (cases "has_col df a")
  case True
  then have mem: "a \<in> fst ` set df" by (simp add: has_col_def columns_def)
  show ?thesis
  proof (cases "a = b")
    case True
    with map_of_replace_same [OF mem, of s] \<open>has_col df a\<close> show ?thesis
      by (simp add: set_col_def get_col_def)
  next
    case False
    then have "b \<noteq> a" by simp
    from map_of_replace_other [OF this, of s df] \<open>has_col df a\<close> False show ?thesis
      by (simp add: set_col_def get_col_def)
  qed
next
  case False
  then have "map_of df a = None" by (simp add: has_col_iff get_col_def)
  with False show ?thesis
    by (auto simp: set_col_def get_col_def map_add_def split: option.splits)
qed

lemma get_col_drop_col: "get_col (drop_col df a) b = (if a = b then None else get_col df b)"
  unfolding get_col_def drop_col_def by (induction df) auto

lemma getitem_set_col: "getitem (set_col df a s) b = (if a = b then s else getitem df b)"
  by (simp add: getitem_def get_col_set_col)

lemma has_col_set_col: "has_col (set_col df a s) b \<longleftrightarrow> a = b \<or> has_col df b"
  by (simp add: has_col_iff get_col_set_col)

lemma has_col_drop_col: "has_col (drop_col df a) b \<longleftrightarrow> a \<noteq> b \<and> has_col df b"
  by (auto simp: has_col_iff get_col_drop_col)

lemma getitem_drop_col:
  "getitem (drop_col df a) b = (if a = b then Series ObjectT [] else getitem df b)"
  by (simp add: getitem_def get_col_drop_col)

lemmas frame_simps = get_col_set_col getitem_set_col has_col_set_col
  get_col_drop_col getitem_drop_col has_col_drop_col

lemma get_col_derived_fields:
  "b \<notin> {''hour'', ''date'', ''day_of_week'', ''month'', ''year''} \<Longrightarrow>
     get_col (derived_fields api ds df) b = get_col df b"
  by (auto simp: derived_fields_def Let_def get_col_set_col)

lemma get_col_add_duration:
  "b \<noteq> ''duration_minutes'' \<Longrightarrow> get_col (add_duration api df) b = get_col df b"
  by (auto simp: add_duration_def get_col_set_col)

lemma clean_name_neq: "c @ ''_clean'' \<noteq> c"
  by simp

subsection \<open>Well-formed dataframes\<close>

lemma wf_frame_iff: "wf_frame df \<longleftrightarrow> distinct (columns df) \<and> all_rows (nrows df) df"
  by (simp add: wf_frame_def all_rows_def)

lemma columns_set_col:
  "columns (set_col df a s) = (if has_col df a then columns df else columns df @ [a])"
proof -
  have "map fst (map (\<lambda>(n, old). if n = a then (n, s) else (n, old)) xs) = map fst xs"
    for xs :: "('a, 'b) frame"
    by (induction xs) auto
  then show ?thesis by (simp add: set_col_def columns_def)
qed

lemma distinct_set_col: "distinct (columns df) \<Longrightarrow> distinct (columns (set_col df a s))"
  by (auto simp: columns_set_col has_col_def)

lemma columns_drop_col: "columns (drop_col df a) = filter (\<lambda>n. n \<noteq> a) (columns df)"
  unfolding drop_col_def columns_def by (induction df) auto

lemma distinct_drop_col: "distinct (columns df) \<Longrightarrow> distinct (columns (drop_col df a))"
  by (simp add: columns_drop_col)

lemma all_rows_set_col:
  "all_rows k df \<Longrightarrow> length (cells s) = k \<Longrightarrow> all_rows k (set_col df a s)"
  by (auto simp: all_rows_def set_col_def list_all_iff split: if_splits)

lemma all_rows_drop_col: "all_rows k df \<Longrightarrow> all_rows k (drop_col df a)"
  by (auto simp: all_rows_def drop_col_def list_all_iff)

lemma all_rows_getitem:
  "all_rows k df \<Longrightarrow> has_col df a \<Longrightarrow> length (cells (getitem df a)) = k"
proof -
  assume a: "all_rows k df" and h: "has_col df a"
  then obtain s where s: "map_of df a = Some s"
    by (cases "map_of df a") (auto simp: has_col_iff get_col_def)
  then have "(a, s) \<in> set df" by (rule map_of_SomeD)
  with a have "length (cells s) = k" by (auto simp: all_rows_def list_all_iff)
  with s show ?thesis by (simp add: getitem_def get_col_def)
qed

lemma all_rows_nrows: "all_rows k df \<Longrightarrow> has_col df a \<Longrightarrow> nrows df = k"
  by (cases df) (auto simp: all_rows_def nrows_def has_col_def columns_def)

lemma all_rows_derived_fields:
  "all_rows k df \<Longrightarrow> length ds = k \<Longrightarrow> all_rows k (derived_fields api ds df)"
  by (simp add: derived_fields_def Let_def all_rows_set_col)

lemma distinct_derived_fields:
  "distinct (columns df) \<Longrightarrow> distinct (columns (derived_fields api ds df))"
  by (simp add: derived_fields_def Let_def distinct_set_col)

lemma has_col_derived_fields: "has_col df a \<Longrightarrow> has_col (derived_fields api ds df) a"
  by (simp add: derived_fields_def Let_def has_col_set_col)

lemma all_rows_add_duration:
  "all_rows k df \<Longrightarrow> all_rows k (add_duration api df)"
  by (auto simp: add_duration_def duration_wanted_def all_rows_set_col all_rows_getitem)

lemma distinct_add_duration:
  "distinct (columns df) \<Longrightarrow> distinct (columns (add_duration api df))"
  by (simp add: add_duration_def distinct_set_col)

lemma has_col_add_duration: "has_col df a \<Longrightarrow> has_col (add_duration api df) a"
  by (simp add: add_duration_def has_col_set_col)

lemma wf_frameI:
  "distinct (columns df) \<Longrightarrow> all_rows k df \<Longrightarrow> has_col df a \<Longrightarrow> wf_frame df \<and> nrows df = k"
  using all_rows_nrows [of k df a] by (simp add: wf_frame_iff)

lemma get_col_clean_column_other:
  "b \<noteq> col \<Longrightarrow> get_col (clean_column api col df) b = get_col df b"
  by (simp add: clean_column_def Let_def get_col_set_col)

lemma columns_clean_column:
  "has_col df col \<Longrightarrow> columns (clean_column api col df) = columns df"
  by (simp add: clean_column_def Let_def columns_set_col has_col_set_col)

lemma all_rows_clean_column:
  "all_rows k df \<Longrightarrow> has_col df col \<Longrightarrow> all_rows k (clean_column api col df)"
  by (simp add: clean_column_def Let_def all_rows_set_col all_rows_getitem getitem_set_col
      pd_to_numeric_def)

lemma clean_numeric_data_other:
  "name \<notin> set cols \<Longrightarrow> get_col (clean_numeric_data api df cols) name = get_col df name"
  unfolding clean_numeric_data_def
  by (induction cols arbitrary: df) (auto simp: get_col_clean_column_other)

lemma clean_numeric_data_columns:
  "columns (clean_numeric_data api df cols) = columns df"
  unfolding clean_numeric_data_def
  by (induction cols arbitrary: df) (auto simp: columns_clean_column)

lemma clean_numeric_data_all_rows:
  "all_rows k df \<Longrightarrow> all_rows k (clean_numeric_data api df cols)"
  unfolding clean_numeric_data_def
  by (induction cols arbitrary: df) (auto simp: all_rows_clean_column)

lemma nrows_all_rows: "all_rows k df \<Longrightarrow> df \<noteq> [] \<Longrightarrow> nrows df = k"
  by (cases df) (auto simp: all_rows_def nrows_def)

lemma clean_numeric_data_wf:
  assumes "wf_frame df"
  shows "wf_frame (clean_numeric_data api df cols)
       \<and> nrows (clean_numeric_data api df cols) = nrows df"
proof (cases "df = []")
  case True
  have "columns (clean_numeric_data api df cols) = columns df"
    by (rule clean_numeric_data_columns)
  with True have "clean_numeric_data api df cols = []" by (simp add: columns_def)
  with True assms show ?thesis by simp
next
  case False
  let ?r = "clean_numeric_data api df cols"
  from assms have d: "distinct (columns df)" and a: "all_rows (nrows df) df"
    by (simp_all add: wf_frame_iff)
  have c: "columns ?r = columns df" by (rule clean_numeric_data_columns)
  with False have ne: "?r \<noteq> []" by (auto simp: columns_def)
  have a': "all_rows (nrows df) ?r" using a by (rule clean_numeric_data_all_rows)
  from a' ne have "nrows ?r = nrows df" by (rule nrows_all_rows)
  with a' c d show ?thesis by (simp add: wf_frame_iff)
qed


subsection \<open>The date normalizer\<close>

lemma to_datetime_cell_opt:
  "to_datetime_cell api fmt (opt_cell (clean_date_format api v)) \<noteq> None \<longleftrightarrow> parses api fmt v"
  by (cases "clean_date_format api v") (simp_all add: parses_def)

lemma count_list_filter_neq:
  "count_list (filter (\<lambda>n. n \<noteq> a) xs) b = (if a = b then 0 else count_list xs b)"
  by (induction xs) auto

lemma duplicated_set_col: "duplicated (set_col df a s) b \<longleftrightarrow> duplicated df b"
proof (cases "has_col df a")
  case True
  then show ?thesis by (simp add: duplicated_def columns_set_col)
next
  case False
  then have "count_list (columns df) a = 0" by (simp add: has_col_def count_list_0_iff)
  with False show ?thesis by (auto simp: duplicated_def columns_set_col)
qed

lemma duplicated_drop_col: "duplicated (drop_col df a) b \<longleftrightarrow> a \<noteq> b \<and> duplicated df b"
  by (simp add: duplicated_def columns_drop_col count_list_filter_neq)

lemma duplicated_derived_fields: "duplicated (derived_fields api ds df) b \<longleftrightarrow> duplicated df b"
  by (simp add: derived_fields_def Let_def duplicated_set_col)

lemma scratch_cells: "cells (getitem (with_scratch api df c) (c @ ''_clean'')) = cleaned_cells api df c"
  by (simp add: with_scratch_def getitem_set_col)

lemma duplicated_with_scratch: "duplicated (with_scratch api df c) b \<longleftrightarrow> duplicated df b"
  by (simp add: with_scratch_def duplicated_set_col)

lemma valid_iff:
  "filter (\<lambda>d. d \<noteq> None) (converted api (with_scratch api df c) c fmt) \<noteq> []
   \<longleftrightarrow> list_ex (parses api fmt) (cells (getitem df c))"
proof -
  let ?g = "\<lambda>v. to_datetime_cell api fmt (opt_cell (clean_date_format api v))"
  let ?xs = "cells (getitem df c)"
  have c: "converted api (with_scratch api df c) c fmt = map ?g ?xs"
    by (simp add: converted_def scratch_cells cleaned_cells_def)
  have "filter (\<lambda>d. d \<noteq> None) (map ?g ?xs) \<noteq> [] \<longleftrightarrow> (\<exists>x \<in> set ?xs. ?g x \<noteq> None)"
    by (auto simp: filter_empty_conv)
  also have "\<dots> \<longleftrightarrow> (\<exists>x \<in> set ?xs. parses api fmt x)"
    by (simp only: to_datetime_cell_opt)
  also have "\<dots> \<longleftrightarrow> list_ex (parses api fmt) ?xs"
    by (simp add: list_ex_iff)
  finally show ?thesis unfolding c .
qed

lemma parse_try_unfold:
  "parse_try api df c fmt flag =
     (if duplicated df c then Inl df
      else if duplicated df (c @ ''_clean'') \<or> to_datetime_raises api fmt (cleaned_cells api df c)
        then Inl (with_scratch api df c)
      else if duration_wanted (before_duration api df c fmt flag)
              \<and> subtract_raises api (getitem (before_duration api df c fmt flag) ''end_time'')
                                    (getitem (before_duration api df c fmt flag) ''start_time'')
        then Inl (before_duration api df c fmt flag)
      else Inr (add_duration api (before_duration api df c fmt flag),
                list_ex (parses api fmt) (cells (getitem df c))))"
  unfolding parse_try_def Let_def before_duration_def [symmetric]
  using valid_iff [of api df c fmt]
  by (simp add: scratch_cells duplicated_with_scratch)

lemma get_col_with_scratch:
  "get_col (with_scratch api df c) b
   = (if c @ ''_clean'' = b then Some (Series ObjectT (cleaned_cells api df c)) else get_col df b)"
  by (simp add: with_scratch_def get_col_set_col)

lemma has_col_with_scratch: "has_col (with_scratch api df c) b \<longleftrightarrow> c @ ''_clean'' = b \<or> has_col df b"
  by (simp add: with_scratch_def has_col_set_col)

lemma overwritten_unparsed:
  "filter (\<lambda>d. d \<noteq> None) ds = [] \<Longrightarrow> overwritten api df1 c ds flag = df1"
  by (simp add: overwritten_def)

lemma get_col_overwritten:
  "b \<noteq> c \<Longrightarrow> b \<notin> {''hour'', ''date'', ''day_of_week'', ''month'', ''year''} \<Longrightarrow>
     get_col (overwritten api df1 c ds flag) b = get_col df1 b"
  by (simp add: overwritten_def Let_def get_col_derived_fields get_col_set_col)

lemma has_col_overwritten: "has_col df1 b \<Longrightarrow> has_col (overwritten api df1 c ds flag) b"
  by (simp add: overwritten_def Let_def has_col_derived_fields has_col_set_col)

lemma before_duration_unparsed:
  "\<not> list_ex (parses api fmt) (cells (getitem df c)) \<Longrightarrow>
     before_duration api df c fmt flag = drop_col (with_scratch api df c) (c @ ''_clean'')"
  using valid_iff [of api df c fmt] by (simp add: before_duration_def overwritten_unparsed)

lemma get_col_before_duration:
  "b \<noteq> c \<Longrightarrow> b \<noteq> c @ ''_clean'' \<Longrightarrow> b \<notin> {''hour'', ''date'', ''day_of_week'', ''month'', ''year''} \<Longrightarrow>
     get_col (before_duration api df c fmt flag) b = get_col df b"
  by (auto simp: before_duration_def get_col_drop_col get_col_overwritten get_col_with_scratch)

lemma has_col_before_duration:
  "has_col df c \<Longrightarrow> has_col (before_duration api df c fmt flag) c"
  by (simp add: before_duration_def has_col_drop_col has_col_overwritten has_col_with_scratch)

lemma parse_raises_iff:
  "parse_raises api df c fmt flag \<longleftrightarrow>
     duplicated df c \<or> duplicated df (c @ ''_clean'')
     \<or> to_datetime_raises api fmt (cleaned_cells api df c)
     \<or> (duration_wanted (before_duration api df c fmt flag)
        \<and> subtract_raises api (getitem (before_duration api df c fmt flag) ''end_time'')
                              (getitem (before_duration api df c fmt flag) ''start_time''))"
  by (simp add: parse_raises_def parse_try_unfold)

lemma success_iff:
  assumes "has_col df c"
  shows "snd (parse_datetime_column api df c fmt flag)
         \<longleftrightarrow> list_ex (parses api fmt) (cells (getitem df c)) \<and> \<not> parse_raises api df c fmt flag"
  using assms by (simp add: parse_datetime_column_def parse_raises_def parse_try_unfold)

lemma unparsed_keeps:
  assumes h: "has_col df c" and no: "\<not> list_ex (parses api fmt) (cells (getitem df c))"
    and d: "c \<noteq> ''duration_minutes''"
  shows "get_col (fst (parse_datetime_column api df c fmt flag)) c = get_col df c"
proof -
  have b: "before_duration api df c fmt flag = drop_col (with_scratch api df c) (c @ ''_clean'')"
    using no by (rule before_duration_unparsed)
  have g: "get_col (drop_col (with_scratch api df c) (c @ ''_clean'')) c = get_col df c"
    by (simp add: get_col_drop_col get_col_with_scratch)
  have w: "get_col (with_scratch api df c) c = get_col df c"
    by (simp add: get_col_with_scratch)
  show ?thesis
    using h d g w
    by (simp add: parse_datetime_column_def parse_try_unfold b get_col_add_duration)
qed


lemmas date_eval = clean_date_format_def lower_def lower_char_def strip_def isspace_def
  sample_pandas_def read_civil_def read_short_def read_nat_def isdigit_def digit_value_def
  month_names_def days_in_month_def leap_year_def

lemma date_cells:
  "clean_date_format sample_pandas (Str ''half an hour'') = Some ''half an hour''"
  "clean_date_format sample_pandas (Str ''Aug 18, 2025 @ 06:00:00.000'') = Some ''Aug 18, 2025 06:00:00''"
  "clean_date_format sample_pandas (Str ''soon'') = Some ''soon''"
  "clean_date_format sample_pandas (Str ''yesterday'') = Some ''yesterday''"
  "clean_date_format sample_pandas NA = None"
  by (simp_all add: date_eval)

lemma date_reads:
  "to_datetime sample_pandas default_format ''half an hour'' = None"
  "to_datetime sample_pandas default_format ''soon'' = None"
  "to_datetime sample_pandas default_format ''yesterday'' = None"
  "to_datetime sample_pandas default_format ''Aug 18, 2025 06:00:00''
     = Some \<lparr>c_year = 2025, c_month = 8, c_day = 18, c_hour = 6, c_minute = 0, c_second = 0\<rparr>"
  by (simp_all add: date_eval default_format_def)



lemma frame_times_cols:
  "has_col frame_times ''start_time''"
  "getitem frame_times ''start_time''
     = Series ObjectT [Str ''Aug 18, 2025 @ 06:00:00.000'', Str ''soon'']"
  "has_col frame_untimed ''start_time''"
  "getitem frame_untimed ''start_time'' = Series ObjectT [Str ''yesterday'', NA]"
  "get_col frame_untimed ''start_time'' = Some (Series ObjectT [Str ''yesterday'', NA])"
  by (simp_all add: frame_times_def frame_untimed_def frame_eval)


lemma getitem_with_scratch:
  "getitem (with_scratch api df c) b
   = (if c @ ''_clean'' = b then Series ObjectT (cleaned_cells api df c) else getitem df b)"
  by (simp add: with_scratch_def getitem_set_col)

lemma sample_never_raises:
  "to_datetime_raises sample_pandas default_format cs = False"
  "subtract_raises sample_pandas e s = False"
  by (simp_all add: sample_pandas_def default_format_def)

lemmas stage_simps = has_col_drop_col has_col_with_scratch getitem_drop_col getitem_with_scratch
  get_col_drop_col get_col_with_scratch duplicated_drop_col duplicated_with_scratch
  get_col_set_col getitem_set_col has_col_set_col duplicated_set_col



lemma has_col_before_duration_other:
  "b \<noteq> c \<Longrightarrow> b \<noteq> c @ ''_clean'' \<Longrightarrow> b \<notin> {''hour'', ''date'', ''day_of_week'', ''month'', ''year''} \<Longrightarrow>
     has_col (before_duration api df c fmt flag) b \<longleftrightarrow> has_col df b"
  by (simp add: has_col_iff get_col_before_duration)

lemma frame_times_single:
  "\<not> duplicated frame_times ''start_time''" "\<not> duplicated frame_times ''start_time_clean''"
  "\<not> has_col frame_times ''end_time''"
  "\<not> duplicated frame_untimed ''start_time''" "\<not> duplicated frame_untimed ''start_time_clean''"
  "\<not> has_col frame_untimed ''end_time''"
  "has_col frame_twice ''start_time''" "duplicated frame_twice ''start_time''"
  "getitem frame_twice ''start_time'' = Series ObjectT [Str ''Aug 18, 2025 @ 06:00:00.000'']"
  by (simp_all add: frame_times_def frame_untimed_def frame_twice_def duplicated_def frame_eval)


subsection \<open>What the normalizers leave alone\<close>

lemma all_rows_with_scratch:
  "all_rows k df \<Longrightarrow> has_col df c \<Longrightarrow> all_rows k (with_scratch api df c)"
  by (simp add: with_scratch_def cleaned_cells_def all_rows_set_col all_rows_getitem)

lemma distinct_with_scratch: "distinct (columns df) \<Longrightarrow> distinct (columns (with_scratch api df c))"
  by (simp add: with_scratch_def distinct_set_col)

lemma all_rows_overwritten:
  "all_rows k df1 \<Longrightarrow> length ds = k \<Longrightarrow> all_rows k (overwritten api df1 c ds flag)"
  by (simp add: overwritten_def Let_def all_rows_derived_fields all_rows_set_col)

lemma distinct_overwritten:
  "distinct (columns df1) \<Longrightarrow> distinct (columns (overwritten api df1 c ds flag))"
  by (simp add: overwritten_def Let_def distinct_derived_fields distinct_set_col)

lemma length_converted:
  "length (converted api (with_scratch api df c) c fmt) = length (cells (getitem df c))"
  by (simp add: converted_def scratch_cells cleaned_cells_def)

lemma all_rows_before_duration:
  "all_rows k df \<Longrightarrow> has_col df c \<Longrightarrow> all_rows k (before_duration api df c fmt flag)"
  by (simp add: before_duration_def all_rows_drop_col all_rows_overwritten all_rows_with_scratch
      length_converted all_rows_getitem)

lemma distinct_before_duration:
  "distinct (columns df) \<Longrightarrow> distinct (columns (before_duration api df c fmt flag))"
  by (simp add: before_duration_def distinct_drop_col distinct_overwritten distinct_with_scratch)

lemma derived_names_neq:
  assumes "c \<notin> set derived_names"
  shows "c \<notin> {''hour'', ''date'', ''day_of_week'', ''month'', ''year''}" and "c \<noteq> ''duration_minutes''"
  using assms by (auto simp: derived_names_def)

lemma parse_datetime_column_other:
  assumes "name \<noteq> c" and "name \<noteq> c @ ''_clean''" and "name \<notin> set derived_names"
  shows "get_col (fst (parse_datetime_column api df c fmt flag)) name = get_col df name"
proof -
  note n = derived_names_neq [OF assms(3)]
  from assms(2) have w: "get_col (with_scratch api df c) name = get_col df name"
    by (auto simp: get_col_with_scratch)
  have b: "get_col (before_duration api df c fmt flag) name = get_col df name"
    using assms(1,2) n(1) by (rule get_col_before_duration)
  show ?thesis
    by (simp add: parse_datetime_column_def parse_try_unfold w b get_col_add_duration [OF n(2)])
qed

lemma parse_datetime_column_wf:
  assumes wf: "wf_frame df"
  shows "wf_frame (fst (parse_datetime_column api df c fmt flag))
       \<and> nrows (fst (parse_datetime_column api df c fmt flag)) = nrows df"
proof (cases "has_col df c")
  case False
  with wf show ?thesis by (simp add: parse_datetime_column_def)
next
  case True
  let ?k = "nrows df"
  from wf have d: "distinct (columns df)" and a: "all_rows ?k df"
    by (simp_all add: wf_frame_iff)
  let ?w = "with_scratch api df c" and ?b = "before_duration api df c fmt flag"
  have 1: "wf_frame df \<and> nrows df = ?k" using wf by simp
  have 2: "wf_frame ?w \<and> nrows ?w = ?k"
    using distinct_with_scratch [OF d] all_rows_with_scratch [OF a True] True
    by (intro wf_frameI [where a = c]) (simp_all add: has_col_with_scratch)
  have 3: "wf_frame ?b \<and> nrows ?b = ?k"
    using distinct_before_duration [OF d] all_rows_before_duration [OF a True]
      has_col_before_duration [OF True]
    by (intro wf_frameI [where a = c])
  have 4: "wf_frame (add_duration api ?b) \<and> nrows (add_duration api ?b) = ?k"
    using distinct_before_duration [OF d, THEN distinct_add_duration]
      all_rows_before_duration [OF a True, THEN all_rows_add_duration]
      has_col_before_duration [OF True, THEN has_col_add_duration]
    by (intro wf_frameI [where a = c])
  from True 1 2 3 4 show ?thesis
    by (simp add: parse_datetime_column_def parse_try_unfold)
qed

lemma clean_not_duration: "c @ ''_clean'' \<noteq> ''duration_minutes''"
proof
  assume "c @ ''_clean'' = ''duration_minutes''"
  then have "last (c @ ''_clean'') = last ''duration_minutes''" by simp
  then show False by simp
qed

lemma parse_datetime_column_scratch:
  assumes h: "has_col df c" and u: "\<not> duplicated df c" "\<not> duplicated df (c @ ''_clean'')"
  shows "get_col (fst (parse_datetime_column api df c fmt flag)) (c @ ''_clean'')
         = (if to_datetime_raises api fmt (cleaned_cells api df c)
            then Some (Series ObjectT (cleaned_cells api df c)) else None)"
proof -
  have w: "get_col (with_scratch api df c) (c @ ''_clean'')
           = Some (Series ObjectT (cleaned_cells api df c))"
    by (simp add: get_col_with_scratch)
  have b: "get_col (before_duration api df c fmt flag) (c @ ''_clean'') = None"
    by (simp add: before_duration_def get_col_drop_col)
  show ?thesis
    using h u w b
    by (simp add: parse_datetime_column_def parse_try_unfold
        get_col_add_duration [OF clean_not_duration])
qed

lemma parse_datetime_column_absent:
  "\<not> has_col df c \<Longrightarrow> parse_datetime_column api df c fmt flag = (df, False)"
  by (simp add: parse_datetime_column_def)

lemma update_at_last: "update_at (length st) f (st @ [x]) = st @ [f x]"
  by (simp add: update_at_def)

lemma fold_store:
  "fold (\<lambda>col s. if has_col (s ! length st) col then update_at (length st) (f col) s else s)
        cols (st @ [x])
   = st @ [fold (\<lambda>col d. if has_col d col then f col d else d) cols x]"
  by (induction cols arbitrary: x) (simp_all add: update_at_last)

lemma clean_numeric_data_store_eq:
  "clean_numeric_data_store api st r cols = (st @ [clean_numeric_data api (st ! r) cols], length st)"
  by (simp add: clean_numeric_data_store_def df_copy_def fold_store clean_numeric_data_def)


lemma parse_try_store_eq:
  "parse_try_store api (st @ [x]) (length st) c fmt flag
   = (case parse_try api x c fmt flag of
        Inl d \<Rightarrow> Inl (st @ [d])
      | Inr (d, ok) \<Rightarrow> Inr (st @ [d], ok))"
  by (simp add: parse_try_store_def parse_try_def Let_def update_at_last)

lemma parse_datetime_column_store_eq:
  "parse_datetime_column_store api st r c fmt flag
   = (st @ [fst (parse_datetime_column api (st ! r) c fmt flag)], length st,
      snd (parse_datetime_column api (st ! r) c fmt flag))"
  by (simp add: parse_datetime_column_store_def parse_datetime_column_def df_copy_def
      parse_try_store_eq split: sum.splits prod.splits)

text \<open>
  C10 amended. Both normalizers work on a copy: every dataframe that was in the store,
  the input among them, is the same afterwards, and the result is a new dataframe. In it,
  for \<open>clean_numeric_data\<close>, every column that was not requested is unchanged and the
  columns are the same, in the same order; for \<open>parse_datetime_column\<close>, every column
  other than the requested one, the scratch column \<open>column_name_clean\<close> and the derived
  fields (\<open>hour\<close>, \<open>date\<close>, \<open>day_of_week\<close>, \<open>month\<close>, \<open>year\<close>,
  \<open>duration_minutes\<close>) is unchanged. When the requested column exists, the scratch
  column is absent from the result, unless the library's conversion raises: the handler
  then returns the dataframe before the scratch column is dropped, and the column holds
  the cleaned strings. When the requested column does not exist the result is the input.
  For a well-formed input the result is well-formed and has the same number of rows, in
  every column.
\<close>

theorem normalizers_frame:
  assumes "r < length st" and "wf_frame (st ! r)"
  shows "(case clean_numeric_data_store api st r cols of
            (st', out) \<Rightarrow>
              (\<forall>i < length st. st' ! i = st ! i)
              \<and> out = length st \<and> length st' = Suc (length st)
              \<and> (\<forall>name. name \<notin> set cols \<longrightarrow> get_col (st' ! out) name = get_col (st ! r) name)
              \<and> columns (st' ! out) = columns (st ! r)
              \<and> wf_frame (st' ! out) \<and> nrows (st' ! out) = nrows (st ! r))
       \<and> (case parse_datetime_column_store api st r c fmt flag of
            (st', out, ok) \<Rightarrow>
              (\<forall>i < length st. st' ! i = st ! i)
              \<and> out = length st \<and> length st' = Suc (length st)
              \<and> (\<forall>name. name \<notin> set ([c, c @ ''_clean''] @ derived_names)
                     \<longrightarrow> get_col (st' ! out) name = get_col (st ! r) name)
              \<and> (has_col (st ! r) c \<longrightarrow>
                   get_col (st' ! out) (c @ ''_clean'')
                   = (if to_datetime_raises api fmt (cleaned_cells api (st ! r) c)
                      then Some (Series ObjectT (cleaned_cells api (st ! r) c)) else None))
              \<and> (\<not> has_col (st ! r) c \<longrightarrow> st' ! out = st ! r \<and> \<not> ok)
              \<and> wf_frame (st' ! out) \<and> nrows (st' ! out) = nrows (st ! r))"
proof -
  from assms(2) have u: "\<not> duplicated (st ! r) c" "\<not> duplicated (st ! r) (c @ ''_clean'')"
    by (simp_all add: wf_frame_iff distinct_not_duplicated)
  have s: "has_col (st ! r) c \<longrightarrow>
             get_col (fst (parse_datetime_column api (st ! r) c fmt flag)) (c @ ''_clean'')
             = (if to_datetime_raises api fmt (cleaned_cells api (st ! r) c)
                then Some (Series ObjectT (cleaned_cells api (st ! r) c)) else None)"
    using u by (simp add: parse_datetime_column_scratch)
  have n: "\<not> has_col (st ! r) c \<longrightarrow>
             fst (parse_datetime_column api (st ! r) c fmt flag) = st ! r
             \<and> \<not> snd (parse_datetime_column api (st ! r) c fmt flag)"
    by (simp add: parse_datetime_column_absent)
  have old: "(st @ [x]) ! i = st ! i" if "i < length st" for i and x :: "('a, 'b) frame"
    using that by (simp add: nth_append)
  have a: "\<forall>name. name \<notin> set cols \<longrightarrow>
             get_col (clean_numeric_data api (st ! r) cols) name = get_col (st ! r) name"
    by (simp add: clean_numeric_data_other)
  have b: "\<forall>name. name \<notin> set ([c, c @ ''_clean''] @ derived_names) \<longrightarrow>
             get_col (fst (parse_datetime_column api (st ! r) c fmt flag)) name = get_col (st ! r) name"
    by (simp add: parse_datetime_column_other)
  show ?thesis
    unfolding clean_numeric_data_store_eq parse_datetime_column_store_eq
    using a b s n clean_numeric_data_wf [OF assms(2), of api cols]
      parse_datetime_column_wf [OF assms(2), of api c fmt flag]
    by (simp add: old clean_numeric_data_columns)
qed


text \<open>
  C10 as stated: every column other than the requested one and the derived fields is
  unchanged. It fails: \<open>parse_datetime_column\<close> writes its cleaned strings to the column
  \<open>column_name_clean\<close> and drops that column at the end, so a column of the input that
  has this name is lost.
\<close>

theorem scratch_column_dropped_counterexample:
  "''start_time_clean'' \<notin> set ([''start_time''] @ derived_names)
   \<and> get_col frame_scratch ''start_time_clean''
       = Some (Series ObjectT [Str ''2025-08-18'', Str ''unknown''])
   \<and> snd (parse_datetime_column sample_pandas frame_scratch ''start_time'' default_format True)
   \<and> get_col (fst (parse_datetime_column sample_pandas frame_scratch ''start_time'' default_format True))
         ''start_time_clean'' = None"
proof -
  let ?b = "before_duration sample_pandas frame_scratch ''start_time'' default_format True"
  have h: "has_col frame_scratch ''start_time''"
    and g: "getitem frame_scratch ''start_time''
              = Series ObjectT [Str ''Aug 18, 2025 @ 06:00:00.000'', Str ''soon'']"
    and k: "get_col frame_scratch ''start_time_clean''
              = Some (Series ObjectT [Str ''2025-08-18'', Str ''unknown''])"
    and e: "\<not> has_col frame_scratch ''end_time''"
    and u: "\<not> duplicated frame_scratch ''start_time''" "\<not> duplicated frame_scratch ''start_time_clean''"
    by (simp_all add: frame_scratch_def frame_eval duplicated_def)
  have p: "parses sample_pandas default_format (Str ''Aug 18, 2025 @ 06:00:00.000'')"
    using date_cells date_reads by (simp add: parses_def)
  have ne: "\<not> has_col ?b ''end_time''" using e by (simp add: has_col_before_duration_other)
  then have nw: "\<not> duration_wanted ?b" by (simp add: duration_wanted_def)
  have nr: "\<not> parse_raises sample_pandas frame_scratch ''start_time'' default_format True"
    using u nw by (simp add: parse_raises_iff sample_never_raises)
  have ok: "snd (parse_datetime_column sample_pandas frame_scratch ''start_time'' default_format True)"
    using success_iff [OF h, of sample_pandas default_format True] g p nr by simp
  have bg: "get_col ?b ''start_time_clean'' = None"
    by (simp add: before_duration_def get_col_drop_col)
  have gone: "get_col (fst (parse_datetime_column sample_pandas frame_scratch ''start_time'' default_format True))
         ''start_time_clean'' = None"
    using h u nw bg
    by (simp add: parse_datetime_column_def parse_try_unfold sample_never_raises get_col_add_duration)
  from k ok gone show ?thesis by (simp add: derived_names_def)
qed

theorem normalizers_frame_witness:
  "(0::nat) < length [frame_perf] \<and> wf_frame ([frame_perf] ! 0)
   \<and> ''site'' \<notin> set [''kpi'']
   \<and> ''site'' \<notin> set ([''start_time'', ''start_time'' @ ''_clean''] @ derived_names)
   \<and> fst (clean_numeric_data_store sample_pandas [frame_perf] 0 [''kpi'']) ! 0 = frame_perf
   \<and> snd (clean_numeric_data_store sample_pandas [frame_perf] 0 [''kpi'']) = 1
   \<and> get_col (fst (clean_numeric_data_store sample_pandas [frame_perf] 0 [''kpi'']) ! 1) ''site''
       = Some (Series ObjectT [Str ''LIM001'', Str ''CUS002''])
   \<and> nrows (fst (clean_numeric_data_store sample_pandas [frame_perf] 0 [''kpi'']) ! 1) = 2
   \<and> fst (parse_datetime_column_store sample_pandas [frame_perf] 0 ''start_time'' default_format True) ! 0
       = frame_perf
   \<and> fst (snd (parse_datetime_column_store sample_pandas [frame_perf] 0 ''start_time'' default_format True)) = 1
   \<and> get_col (fst (parse_datetime_column_store sample_pandas [frame_perf] 0 ''start_time'' default_format True) ! 1)
         ''site'' = Some (Series ObjectT [Str ''LIM001'', Str ''CUS002''])
   \<and> nrows (fst (parse_datetime_column_store sample_pandas [frame_perf] 0 ''start_time'' default_format True) ! 1) = 2
   \<and> has_col ([frame_perf] ! 0) ''start_time''
   \<and> \<not> to_datetime_raises sample_pandas default_format
         (cleaned_cells sample_pandas ([frame_perf] ! 0) ''start_time'')
   \<and> get_col (fst (parse_datetime_column_store sample_pandas [frame_perf] 0 ''start_time'' default_format True) ! 1)
         ''start_time_clean'' = None
   \<and> \<not> has_col ([frame_perf] ! 0) ''end_time''
   \<and> fst (parse_datetime_column_store sample_pandas [frame_perf] 0 ''end_time'' default_format True) ! 1
       = frame_perf
   \<and> \<not> snd (snd (parse_datetime_column_store sample_pandas [frame_perf] 0 ''end_time'' default_format True))"
proof -
  have h3: "has_col ([frame_perf] ! 0) ''start_time''" "\<not> has_col ([frame_perf] ! 0) ''end_time''"
    by (simp_all add: frame_perf_def frame_eval)
  have h1: "(0::nat) < length [frame_perf]" by simp
  have h2: "wf_frame ([frame_perf] ! 0)" by (simp add: frame_perf_def frame_eval)
  have s: "get_col frame_perf ''site'' = Some (Series ObjectT [Str ''LIM001'', Str ''CUS002''])"
    and n: "nrows frame_perf = 2"
    by (simp_all add: frame_perf_def frame_eval)
  from normalizers_frame [where api = sample_pandas and cols = "[''kpi'']" and c = "''start_time''"
      and fmt = default_format and flag = True, OF h1 h2]
    normalizers_frame [where api = sample_pandas and cols = "[''kpi'']" and c = "''end_time''"
      and fmt = default_format and flag = True, OF h1 h2]
    h2 h3 s n
  show ?thesis
    by (simp add: clean_numeric_data_store_eq parse_datetime_column_store_eq derived_names_def
        sample_never_raises)
qed


text \<open>
  A format with a directive the library does not know makes the conversion raise: the flag
  is \<open>False\<close> and the scratch column stays in the result.
\<close>

lemma bad_format_keeps_scratch:
  "parse_raises sample_pandas frame_times ''start_time'' ''%Q'' True
   \<and> \<not> snd (parse_datetime_column sample_pandas frame_times ''start_time'' ''%Q'' True)
   \<and> has_col (fst (parse_datetime_column sample_pandas frame_times ''start_time'' ''%Q'' True))
         ''start_time_clean''"
  using frame_times_cols frame_times_single
  by (simp add: parse_raises_iff parse_datetime_column_def parse_try_unfold sample_pandas_def
      has_col_with_scratch)

subsection \<open>Running a normalizer twice\<close>

lemma get_col_getitem: "has_col df a \<Longrightarrow> get_col df a = Some (getitem df a)"
  by (cases "get_col df a") (auto simp: has_col_iff getitem_def)

lemma renormalize_cell:
  assumes "c = NA \<or> (\<exists>n. c = Num n \<and> prints_plainly api n)"
  shows "to_numeric_cell api (opt_cell (clean_european_number api c)) = c"
proof -
  from assms consider "c = NA" | n where "c = Num n" "prints_plainly api n" by blast
  then show ?thesis
  proof cases
    case 1
    then show ?thesis by (simp add: clean_european_number_def)
  next
    case 2
    let ?s = "num_str api n"
    from 2 have s: "strip ?s = ?s" "CHR 0x22 \<notin> set ?s" "CHR '','' \<notin> set ?s" "list_ex isdigit ?s"
      "to_numeric api ?s = Some n"
      by (simp_all add: prints_plainly_def Let_def)
    from s(2) have f: "filter (\<lambda>c. c \<noteq> CHR 0x22) ?s = ?s" by (auto simp: filter_id_conv)
    have "clean_european_number api (Num n) = Some ?s"
      unfolding clean_european_number_unfold using s f by (simp add: Let_def)
    with 2 s show ?thesis by simp
  qed
qed

lemma numeric_col_cells:
  "numeric_col s \<Longrightarrow> c \<in> set (cells s) \<Longrightarrow> c = NA \<or> (\<exists>n. c = Num n)"
  by (cases c) (auto simp: numeric_col_def list_all_iff)

lemma to_numeric_cell_kind: "number_or_na (to_numeric_cell api c)"
  by (cases c) (auto split: option.splits)

lemma getitem_clean_column:
  "getitem (clean_column api col df) col
   = Series NumberT (map (\<lambda>v. to_numeric_cell api (opt_cell (clean_european_number api v)))
                         (cells (getitem df col)))"
  by (simp add: clean_column_def Let_def getitem_set_col pd_to_numeric_def comp_def)

lemma getitem_clean_column_other:
  "b \<noteq> col \<Longrightarrow> getitem (clean_column api col df) b = getitem df b"
  by (simp add: getitem_def get_col_clean_column_other)

lemma numeric_clean_column: "numeric_col (getitem (clean_column api col df) col)"
  unfolding getitem_clean_column numeric_col_def
  by (simp add: list_all_iff to_numeric_cell_kind)

lemma has_col_clean_column: "has_col df col \<Longrightarrow> has_col (clean_column api col df) b \<longleftrightarrow> has_col df b"
  by (simp add: has_col_def columns_clean_column)

lemma numeric_preserved:
  "numeric_col (getitem df col) \<Longrightarrow> numeric_col (getitem (clean_numeric_data api df cols) col)"
proof (induction cols arbitrary: df)
  case Nil
  then show ?case by (simp add: clean_numeric_data_def)
next
  case (Cons a cols)
  let ?df' = "if has_col df a then clean_column api a df else df"
  have "numeric_col (getitem ?df' col)"
    using Cons.prems numeric_clean_column [of api a df]
    by (cases "a = col") (auto simp: getitem_clean_column_other)
  from Cons.IH [OF this] show ?case by (simp add: clean_numeric_data_def)
qed

lemma numeric_after:
  "col \<in> set cols \<Longrightarrow> has_col df col \<Longrightarrow> numeric_col (getitem (clean_numeric_data api df cols) col)"
proof (induction cols arbitrary: df)
  case Nil
  then show ?case by simp
next
  case (Cons a cols)
  let ?df' = "if has_col df a then clean_column api a df else df"
  have step: "clean_numeric_data api df (a # cols) = clean_numeric_data api ?df' cols"
    by (simp add: clean_numeric_data_def)
  show ?case
  proof (cases "a = col")
    case True
    with Cons.prems have "numeric_col (getitem ?df' col)" using numeric_clean_column [of api a df] by simp
    then show ?thesis unfolding step by (rule numeric_preserved)
  next
    case False
    with Cons.prems have "col \<in> set cols" by simp
    moreover have "has_col ?df' col" using Cons.prems by (simp add: has_col_clean_column)
    ultimately show ?thesis unfolding step by (rule Cons.IH)
  qed
qed

lemma settled_cells:
  assumes "settled api df col" and "c \<in> set (cells (getitem df col))"
  shows "c = NA \<or> (\<exists>n. c = Num n \<and> prints_plainly api n)"
proof -
  from assms have "c = NA \<or> (\<exists>n. c = Num n)" by (auto simp: settled_def dest: numeric_col_cells)
  moreover from assms have "case c of Num n \<Rightarrow> prints_plainly api n | _ \<Rightarrow> True"
    by (simp add: settled_def list_all_iff)
  ultimately show ?thesis by auto
qed

lemma clean_column_settled:
  assumes h: "has_col df col" and s: "settled api df col"
  shows "get_col (clean_column api col df) name = get_col df name"
proof (cases "name = col")
  case False
  then show ?thesis by (simp add: get_col_clean_column_other)
next
  case True
  let ?cs = "cells (getitem df col)"
  have each: "to_numeric_cell api (opt_cell (clean_european_number api c)) = c" if "c \<in> set ?cs" for c
    using settled_cells [OF s that] by (rule renormalize_cell)
  then have "map (\<lambda>v. to_numeric_cell api (opt_cell (clean_european_number api v))) ?cs = ?cs"
    by (simp add: map_idI)
  moreover from s have "dtype_of (getitem df col) = NumberT" by (simp add: settled_def numeric_col_def)
  ultimately have "getitem (clean_column api col df) col = getitem df col"
    unfolding getitem_clean_column by (cases "getitem df col") simp
  moreover have "has_col (clean_column api col df) col" using h by (simp add: has_col_clean_column)
  ultimately show ?thesis using True h by (simp add: get_col_getitem)
qed

lemma settled_cong:
  "(\<And>name. get_col df' name = get_col df name) \<Longrightarrow> settled api df' col = settled api df col"
  by (simp add: settled_def getitem_def)

lemma has_col_cong:
  "(\<And>name. get_col df' name = get_col df name) \<Longrightarrow> has_col df' col = has_col df col"
  by (simp add: has_col_iff)

lemma clean_numeric_data_settled:
  "(\<And>col. col \<in> set cols \<Longrightarrow> has_col df col \<Longrightarrow> settled api df col) \<Longrightarrow>
     get_col (clean_numeric_data api df cols) name = get_col df name"
proof (induction cols arbitrary: df)
  case Nil
  then show ?case by (simp add: clean_numeric_data_def)
next
  case (Cons a cols)
  let ?df' = "if has_col df a then clean_column api a df else df"
  have step: "clean_numeric_data api df (a # cols) = clean_numeric_data api ?df' cols"
    by (simp add: clean_numeric_data_def)
  have same: "get_col ?df' x = get_col df x" for x
    using Cons.prems [of a] by (simp add: clean_column_settled)
  have "get_col (clean_numeric_data api ?df' cols) name = get_col ?df' name"
  proof (rule Cons.IH)
    fix col assume c: "col \<in> set cols" and h: "has_col ?df' col"
    from h have "has_col df col" using has_col_cong [of ?df' df col] same by blast
    with c Cons.prems [of col] have "settled api df col" by simp
    then show "settled api ?df' col" using settled_cong [of ?df' df api col] same by blast
  qed
  with same show ?case unfolding step by simp
qed

lemma numeric_idempotent:
  assumes "\<forall>col \<in> set cols. \<forall>n. Num n \<in> set (cells (getitem (clean_numeric_data api df cols) col))
              \<longrightarrow> prints_plainly api n"
  shows "get_col (clean_numeric_data api (clean_numeric_data api df cols) cols) name
       = get_col (clean_numeric_data api df cols) name"
proof (rule clean_numeric_data_settled)
  fix col assume c: "col \<in> set cols" and h: "has_col (clean_numeric_data api df cols) col"
  from h have "has_col df col" by (simp add: has_col_def clean_numeric_data_columns)
  with c have "numeric_col (getitem (clean_numeric_data api df cols) col)" by (rule numeric_after)
  moreover from assms c
  have "list_all (\<lambda>c. case c of Num n \<Rightarrow> prints_plainly api n | _ \<Rightarrow> True)
          (cells (getitem (clean_numeric_data api df cols) col))"
    by (auto simp: list_all_iff split: cell.splits)
  ultimately show "settled api (clean_numeric_data api df cols) col" by (simp add: settled_def)
qed

lemma reclean_NA: "reclean api fmt NA = NA"
  by (simp add: reclean_def clean_date_format_def)

lemma reclean_Ts: "reclean api fmt (Ts t) = ts_cell (reparse api fmt t)"
  by (cases "clean_date_format api (Ts t)") (simp_all add: reclean_def reparse_def)

lemma reclean_kind: "reclean api fmt v = NA \<or> (\<exists>t. reclean api fmt v = Ts t)"
  unfolding reclean_def
  by (cases "to_datetime_cell api fmt (opt_cell (clean_date_format api v))") simp_all

lemma parses_Ts: "parses api fmt (Ts t) \<longleftrightarrow> reparse api fmt t \<noteq> None"
  by (cases "clean_date_format api (Ts t)") (simp_all add: parses_def reparse_def)

lemma parses_NA: "\<not> parses api fmt NA"
  by (simp add: parses_def clean_date_format_def)

lemma converted_reclean:
  "map ts_cell (converted api (with_scratch api df c) c fmt) = map (reclean api fmt) (cells (getitem df c))"
  by (simp add: converted_def scratch_cells cleaned_cells_def reclean_def)

lemma get_col_before_duration_same:
  assumes "c \<notin> {''hour'', ''date'', ''day_of_week'', ''month'', ''year''}"
  shows "get_col (before_duration api df c fmt flag) c
         = (if list_ex (parses api fmt) (cells (getitem df c))
            then Some (Series DatetimeT (map (reclean api fmt) (cells (getitem df c))))
            else get_col df c)"
proof (cases "list_ex (parses api fmt) (cells (getitem df c))")
  case False
  then show ?thesis
    by (simp add: before_duration_unparsed get_col_drop_col get_col_with_scratch)
next
  case True
  then have v: "filter (\<lambda>d. d \<noteq> None) (converted api (with_scratch api df c) c fmt) \<noteq> []"
    by (simp only: valid_iff)
  show ?thesis
    using True v assms
    by (simp add: before_duration_def overwritten_def Let_def get_col_drop_col
        get_col_derived_fields get_col_set_col converted_reclean)
qed

lemma parse_column_cases:
  assumes h: "has_col df c" and d: "c \<notin> set derived_names"
  shows "get_col (fst (parse_datetime_column api df c fmt flag)) c = get_col df c
       \<or> (list_ex (parses api fmt) (cells (getitem df c))
          \<and> get_col (fst (parse_datetime_column api df c fmt flag)) c
              = Some (Series DatetimeT (map (reclean api fmt) (cells (getitem df c)))))"
proof -
  note n = derived_names_neq [OF d]
  have w: "get_col (with_scratch api df c) c = get_col df c"
    by (simp add: get_col_with_scratch)
  show ?thesis
    using h w
    by (simp add: parse_datetime_column_def parse_try_unfold get_col_add_duration [OF n(2)]
        get_col_before_duration_same [OF n(1)])
qed

lemma parse_success_column:
  assumes h: "has_col df c" and ok: "snd (parse_datetime_column api df c fmt flag)"
    and d: "c \<notin> set derived_names"
  shows "get_col (fst (parse_datetime_column api df c fmt flag)) c
       = Some (Series DatetimeT (map (reclean api fmt) (cells (getitem df c))))"
proof -
  note n = derived_names_neq [OF d]
  from ok h have p: "list_ex (parses api fmt) (cells (getitem df c))"
    and r: "\<not> parse_raises api df c fmt flag"
    by (simp_all add: success_iff)
  from r have "parse_try api df c fmt flag
      = Inr (add_duration api (before_duration api df c fmt flag),
             list_ex (parses api fmt) (cells (getitem df c)))"
    by (simp add: parse_raises_def parse_try_unfold split: if_splits)
  then show ?thesis
    using h p
    by (simp add: parse_datetime_column_def get_col_add_duration [OF n(2)]
        get_col_before_duration_same [OF n(1)])
qed

lemma parse_has_col:
  "has_col df c \<Longrightarrow> has_col (fst (parse_datetime_column api df c fmt flag)) c"
  by (simp add: parse_datetime_column_def parse_try_unfold has_col_with_scratch
      has_col_before_duration has_col_add_duration)

lemma clean_not_time: "c @ ''_clean'' \<noteq> ''start_time''" "c @ ''_clean'' \<noteq> ''end_time''"
proof -
  have "last (c @ ''_clean'') \<noteq> last ''start_time''" "last (c @ ''_clean'') \<noteq> last ''end_time''"
    by simp_all
  then show "c @ ''_clean'' \<noteq> ''start_time''" "c @ ''_clean'' \<noteq> ''end_time''"
    by metis+
qed

lemma add_duration_again:
  assumes s: "has_col y ''start_time'' = has_col x ''start_time''"
      "duplicated y ''start_time'' = duplicated x ''start_time''"
      "getitem y ''start_time'' = getitem x ''start_time''"
    and e: "has_col y ''end_time'' = has_col x ''end_time''"
      "duplicated y ''end_time'' = duplicated x ''end_time''"
      "getitem y ''end_time'' = getitem x ''end_time''"
    and g: "get_col y ''duration_minutes'' = get_col (add_duration api x) ''duration_minutes''"
  shows "get_col (add_duration api y) ''duration_minutes''
         = get_col (add_duration api x) ''duration_minutes''"
proof -
  have w: "duration_wanted y = duration_wanted x"
    by (simp add: duration_wanted_def is_datetime_col_def s e)
  show ?thesis
  proof (cases "duration_wanted x")
    case True
    with w show ?thesis by (simp add: add_duration_def get_col_set_col s e)
  next
    case False
    with w g show ?thesis by (simp add: add_duration_def)
  qed
qed

lemma time_columns_add_duration:
  assumes "b \<noteq> ''duration_minutes''"
  shows "has_col (add_duration api x) b = has_col x b"
    and "duplicated (add_duration api x) b = duplicated x b"
    and "getitem (add_duration api x) b = getitem x b"
proof -
  from assms have g: "get_col (add_duration api x) b = get_col x b" by (rule get_col_add_duration)
  show "has_col (add_duration api x) b = has_col x b" by (simp add: has_col_iff g)
  show "getitem (add_duration api x) b = getitem x b" by (simp add: getitem_def g)
  show "duplicated (add_duration api x) b = duplicated x b"
    by (simp add: add_duration_def duplicated_set_col)
qed

lemma unparsed_keeps_duration:
  assumes none: "\<not> list_ex (parses api fmt) (cells (getitem (add_duration api x) ''duration_minutes''))"
  shows "get_col (fst (parse_datetime_column api (add_duration api x) ''duration_minutes'' fmt again))
           ''duration_minutes''
         = get_col (add_duration api x) ''duration_minutes''"
proof -
  let ?c = "''duration_minutes''"
  let ?z = "add_duration api x"
  let ?y = "drop_col (with_scratch api ?z ?c) (?c @ ''_clean'')"
  have b: "before_duration api ?z ?c fmt again = ?y"
    using none by (rule before_duration_unparsed)
  have w: "get_col (with_scratch api ?z ?c) ?c = get_col ?z ?c"
    by (simp add: get_col_with_scratch)
  have y: "get_col ?y ?c = get_col ?z ?c"
    by (simp add: get_col_drop_col get_col_with_scratch)
  have t: "get_col (add_duration api ?y) ?c = get_col ?z ?c"
  proof (rule add_duration_again)
    show "has_col ?y ''start_time'' = has_col x ''start_time''"
      using clean_not_time [of ?c] by (simp add: stage_simps time_columns_add_duration)
    show "duplicated ?y ''start_time'' = duplicated x ''start_time''"
      using clean_not_time [of ?c] by (simp add: stage_simps time_columns_add_duration)
    show "getitem ?y ''start_time'' = getitem x ''start_time''"
      using clean_not_time [of ?c] by (simp add: stage_simps time_columns_add_duration)
    show "has_col ?y ''end_time'' = has_col x ''end_time''"
      using clean_not_time [of ?c] by (simp add: stage_simps time_columns_add_duration)
    show "duplicated ?y ''end_time'' = duplicated x ''end_time''"
      using clean_not_time [of ?c] by (simp add: stage_simps time_columns_add_duration)
    show "getitem ?y ''end_time'' = getitem x ''end_time''"
      using clean_not_time [of ?c] by (simp add: stage_simps time_columns_add_duration)
    show "get_col ?y ?c = get_col ?z ?c" by (rule y)
  qed
  show ?thesis
    using w y t by (simp add: parse_datetime_column_def parse_try_unfold b)
qed

lemma parse_success_frame:
  assumes h: "has_col df c" and ok: "snd (parse_datetime_column api df c fmt flag)"
  shows "fst (parse_datetime_column api df c fmt flag)
         = add_duration api (before_duration api df c fmt flag)"
proof -
  from ok h have r: "\<not> parse_raises api df c fmt flag" by (simp add: success_iff)
  then have "parse_try api df c fmt flag
      = Inr (add_duration api (before_duration api df c fmt flag),
             list_ex (parses api fmt) (cells (getitem df c)))"
    by (simp add: parse_raises_def parse_try_unfold split: if_splits)
  with h show ?thesis by (simp add: parse_datetime_column_def)
qed

lemma date_idempotent:
  assumes h: "has_col df c" and ok1: "snd (parse_datetime_column api df c fmt flag)"
    and lib: "(\<forall>v \<in> set (cells (getitem (fst (parse_datetime_column api df c fmt flag)) c)).
                 \<not> parses api fmt v)
            \<or> (c \<notin> set derived_names
               \<and> (\<forall>t. Ts t \<in> set (cells (getitem (fst (parse_datetime_column api df c fmt flag)) c))
                     \<longrightarrow> reparse api fmt t = Some t))"
  shows "get_col (fst (parse_datetime_column api (fst (parse_datetime_column api df c fmt flag)) c fmt again)) c
       = get_col (fst (parse_datetime_column api df c fmt flag)) c"
proof (rule disjE [OF lib])
  let ?df1 = "fst (parse_datetime_column api df c fmt flag)"
  assume "\<forall>v \<in> set (cells (getitem ?df1 c)). \<not> parses api fmt v"
  then have none: "\<not> list_ex (parses api fmt) (cells (getitem ?df1 c))"
    by (simp add: list_ex_iff)
  have h1: "has_col ?df1 c" using h by (rule parse_has_col)
  show ?thesis
  proof (cases "c = ''duration_minutes''")
    case False
    with h1 none show ?thesis by (simp add: unparsed_keeps)
  next
    case True
    have f: "?df1 = add_duration api (before_duration api df c fmt flag)"
      using h ok1 by (rule parse_success_frame)
    from none have "\<not> list_ex (parses api fmt)
        (cells (getitem (add_duration api (before_duration api df c fmt flag)) ''duration_minutes''))"
      using f True by simp
    then have "get_col (fst (parse_datetime_column api
                  (add_duration api (before_duration api df c fmt flag)) ''duration_minutes'' fmt again))
                ''duration_minutes''
             = get_col (add_duration api (before_duration api df c fmt flag)) ''duration_minutes''"
      by (rule unparsed_keeps_duration)
    then show ?thesis using f True by simp
  qed
next
  let ?df1 = "fst (parse_datetime_column api df c fmt flag)"
  let ?df2 = "fst (parse_datetime_column api ?df1 c fmt again)"
  let ?cs1 = "cells (getitem ?df1 c)"
  assume a: "c \<notin> set derived_names \<and> (\<forall>t. Ts t \<in> set ?cs1 \<longrightarrow> reparse api fmt t = Some t)"
  then have d: "c \<notin> set derived_names"
    and same_t: "\<forall>t. Ts t \<in> set ?cs1 \<longrightarrow> reparse api fmt t = Some t" by simp_all
  have h1: "has_col ?df1 c" using h by (rule parse_has_col)
  have col1: "get_col ?df1 c = Some (Series DatetimeT (map (reclean api fmt) (cells (getitem df c))))"
    using h ok1 d by (rule parse_success_column)
  then have cs1: "?cs1 = map (reclean api fmt) (cells (getitem df c))"
    by (simp add: getitem_def)
  have kind: "v = NA \<or> (\<exists>t. v = Ts t)" if "v \<in> set ?cs1" for v
    using that reclean_kind [of api fmt] unfolding cs1 by auto
  have "reclean api fmt v = v" if "v \<in> set ?cs1" for v
    using kind [OF that] that same_t by (auto simp: reclean_NA reclean_Ts)
  then have same: "map (reclean api fmt) ?cs1 = ?cs1" by (simp add: map_idI)
  from parse_column_cases [OF h1 d, of api fmt again]
  consider "get_col ?df2 c = get_col ?df1 c"
    | "get_col ?df2 c = Some (Series DatetimeT (map (reclean api fmt) ?cs1))"
    by blast
  then show ?thesis
  proof cases
    case 1
    then show ?thesis .
  next
    case 2
    then have "get_col ?df2 c = Some (Series DatetimeT ?cs1)" by (simp only: same)
    also have "\<dots> = get_col ?df1 c" using col1 cs1 by simp
    finally show ?thesis .
  qed
qed

text \<open>
  C7. Running a normalizer a second time on its own result changes no value, given what
  the library has to do for that. For \<open>clean_numeric_data\<close>: when every number of the
  requested columns after the first run prints plainly (its string has no surrounding
  whitespace, no double quote and no comma, has a digit, and reads back as the same
  number), the result of the second run has the same columns with the same values. For
  \<open>parse_datetime_column\<close>: when the first run succeeded and no value it left in the
  column parses again under the format (the string of a timestamp,
  \<^verbatim>\<open>2025-08-18 06:00:00\<close>, is not of the format \<^verbatim>\<open>%b %d, %Y %H:%M:%S\<close>), or the column
  is none of the derived fields and every timestamp in it is read back as itself, the
  second run leaves every value of the column as the first run left it.
\<close>

theorem normalizers_idempotent:
  "((\<forall>col \<in> set cols. \<forall>n.
        Num n \<in> set (cells (getitem (clean_numeric_data api df cols) col)) \<longrightarrow> prints_plainly api n)
      \<longrightarrow> (\<forall>name. get_col (clean_numeric_data api (clean_numeric_data api df cols) cols) name
                   = get_col (clean_numeric_data api df cols) name)
          \<and> columns (clean_numeric_data api (clean_numeric_data api df cols) cols)
              = columns (clean_numeric_data api df cols))
   \<and> (has_col df c \<and> snd (parse_datetime_column api df c fmt flag)
       \<and> ((\<forall>v \<in> set (cells (getitem (fst (parse_datetime_column api df c fmt flag)) c)).
              \<not> parses api fmt v)
          \<or> (c \<notin> set derived_names
             \<and> (\<forall>t. Ts t \<in> set (cells (getitem (fst (parse_datetime_column api df c fmt flag)) c))
                   \<longrightarrow> reparse api fmt t = Some t)))
      \<longrightarrow> get_col (fst (parse_datetime_column api (fst (parse_datetime_column api df c fmt flag)) c fmt again)) c
          = get_col (fst (parse_datetime_column api df c fmt flag)) c)"
proof (intro conjI impI allI)
  fix name
  assume "\<forall>col \<in> set cols. \<forall>n.
        Num n \<in> set (cells (getitem (clean_numeric_data api df cols) col)) \<longrightarrow> prints_plainly api n"
  then show "get_col (clean_numeric_data api (clean_numeric_data api df cols) cols) name
                   = get_col (clean_numeric_data api df cols) name"
    by (rule numeric_idempotent)
next
  show "columns (clean_numeric_data api (clean_numeric_data api df cols) cols)
              = columns (clean_numeric_data api df cols)"
    by (simp only: clean_numeric_data_columns)
next
  assume a: "has_col df c \<and> snd (parse_datetime_column api df c fmt flag)
       \<and> ((\<forall>v \<in> set (cells (getitem (fst (parse_datetime_column api df c fmt flag)) c)).
              \<not> parses api fmt v)
          \<or> (c \<notin> set derived_names
             \<and> (\<forall>t. Ts t \<in> set (cells (getitem (fst (parse_datetime_column api df c fmt flag)) c))
                   \<longrightarrow> reparse api fmt t = Some t)))"
  from a have h: "has_col df c" and ok: "snd (parse_datetime_column api df c fmt flag)"
    by simp_all
  from a have lib: "(\<forall>v \<in> set (cells (getitem (fst (parse_datetime_column api df c fmt flag)) c)).
              \<not> parses api fmt v)
          \<or> (c \<notin> set derived_names
             \<and> (\<forall>t. Ts t \<in> set (cells (getitem (fst (parse_datetime_column api df c fmt flag)) c))
                   \<longrightarrow> reparse api fmt t = Some t))" by (elim conjE)
  from h ok lib
  show "get_col (fst (parse_datetime_column api (fst (parse_datetime_column api df c fmt flag)) c fmt again)) c
          = get_col (fst (parse_datetime_column api df c fmt flag)) c"
    by (rule date_idempotent)
qed

lemma frame_kpi_cleaned:
  "clean_numeric_data sample_pandas frame_kpi [''kpi'']
     = [(''kpi'', Series NumberT [Num (23418082, 3), Num (12345, 2), Num (1234, 3), NA, NA])]"
  using vector_cells vector_numbers
  by (simp add: frame_kpi_def clean_numeric_data_def clean_column_def has_col_def columns_def
      set_col_def getitem_def get_col_def pd_to_numeric_def sample_pandas_def)

lemma sample_shows:
  "show_decimal (23418082, 3) = ''23418.082''"
  "show_decimal (12345, 2) = ''123.45''"
  "show_decimal (1234, 3) = ''1.234''"
  by (simp_all add: show_decimal_def digits.simps digit_char_def)

lemma sample_prints:
  "prints_plainly sample_pandas (23418082, 3)"
  "prints_plainly sample_pandas (12345, 2)"
  "prints_plainly sample_pandas (1234, 3)"
  using vector_numbers
  by (simp_all add: prints_plainly_def sample_pandas_def sample_shows strip_def isspace_def isdigit_def)

lemma sample_reparse:
  "show_civil \<lparr>c_year = 2025, c_month = 8, c_day = 18, c_hour = 6, c_minute = 0, c_second = 0\<rparr>
     = ''2025-08-18 06:00:00''"
  "reparse sample_pandas default_format
     \<lparr>c_year = 2025, c_month = 8, c_day = 18, c_hour = 6, c_minute = 0, c_second = 0\<rparr> = None"
  by (simp_all add: reparse_def date_eval default_format_def show_civil_def show_date_def pad2_def pad4_def
      digit_char_def)

lemma sample_reclean:
  "reclean sample_pandas default_format (Str ''Aug 18, 2025 @ 06:00:00.000'') = Ts \<lparr>c_year = 2025, c_month = 8, c_day = 18, c_hour = 6, c_minute = 0, c_second = 0\<rparr>"
  "reclean sample_pandas default_format (Str ''soon'') = NA"
  by (simp_all add: reclean_def date_cells date_reads)

theorem normalizers_idempotent_witness:
  "cells (getitem (clean_numeric_data sample_pandas frame_kpi [''kpi'']) ''kpi'')
     = [Num (23418082, 3), Num (12345, 2), Num (1234, 3), NA, NA]
   \<and> prints_plainly sample_pandas (23418082, 3) \<and> prints_plainly sample_pandas (12345, 2)
   \<and> prints_plainly sample_pandas (1234, 3)
   \<and> get_col (clean_numeric_data sample_pandas
               (clean_numeric_data sample_pandas frame_kpi [''kpi'']) [''kpi'']) ''kpi''
       = Some (Series NumberT [Num (23418082, 3), Num (12345, 2), Num (1234, 3), NA, NA])
   \<and> has_col frame_times ''start_time''
   \<and> snd (parse_datetime_column sample_pandas frame_times ''start_time'' default_format True)
   \<and> ''start_time'' \<notin> set derived_names
   \<and> cells (getitem (fst (parse_datetime_column sample_pandas frame_times ''start_time'' default_format True))
              ''start_time'')
       = [Ts \<lparr>c_year = 2025, c_month = 8, c_day = 18, c_hour = 6, c_minute = 0, c_second = 0\<rparr>, NA]
   \<and> \<not> parses sample_pandas default_format (Ts \<lparr>c_year = 2025, c_month = 8, c_day = 18, c_hour = 6, c_minute = 0, c_second = 0\<rparr>)
   \<and> \<not> parses sample_pandas default_format NA
   \<and> get_col (fst (parse_datetime_column sample_pandas
                    (fst (parse_datetime_column sample_pandas frame_times ''start_time'' default_format True))
                    ''start_time'' default_format True)) ''start_time''
       = Some (Series DatetimeT [Ts \<lparr>c_year = 2025, c_month = 8, c_day = 18, c_hour = 6, c_minute = 0, c_second = 0\<rparr>, NA])"
proof -
  let ?k1 = "clean_numeric_data sample_pandas frame_kpi [''kpi'']"
  let ?t1 = "fst (parse_datetime_column sample_pandas frame_times ''start_time'' default_format True)"
  have k: "cells (getitem ?k1 ''kpi'') = [Num (23418082, 3), Num (12345, 2), Num (1234, 3), NA, NA]"
    and kc: "get_col ?k1 ''kpi''
             = Some (Series NumberT [Num (23418082, 3), Num (12345, 2), Num (1234, 3), NA, NA])"
    by (simp_all add: frame_kpi_cleaned getitem_def get_col_def)
  have hn: "\<forall>col \<in> set [''kpi'']. \<forall>n. Num n \<in> set (cells (getitem ?k1 col)) \<longrightarrow> prints_plainly sample_pandas n"
    using sample_prints by (auto simp: k)
  have r1: "get_col (clean_numeric_data sample_pandas ?k1 [''kpi'']) ''kpi'' = get_col ?k1 ''kpi''"
    using normalizers_idempotent [where api = sample_pandas and df = frame_kpi and cols = "[''kpi'']"
        and c = "''start_time''" and fmt = default_format and flag = True and again = True,
        THEN conjunct1, THEN mp, OF hn, THEN conjunct1, THEN spec, of "''kpi''"] .
  have d: "''start_time'' \<notin> set derived_names" by (simp add: derived_names_def)
  have p1: "parses sample_pandas default_format (Str ''Aug 18, 2025 @ 06:00:00.000'')"
    using date_cells date_reads by (simp add: parses_def)
  have e: "\<not> has_col (before_duration sample_pandas frame_times ''start_time'' default_format True) ''end_time''"
    using frame_times_single by (simp add: has_col_before_duration_other)
  have nr: "\<not> parse_raises sample_pandas frame_times ''start_time'' default_format True"
    using frame_times_single e by (simp add: parse_raises_iff sample_never_raises duration_wanted_def)
  have ok1: "snd (parse_datetime_column sample_pandas frame_times ''start_time'' default_format True)"
    using success_iff [OF frame_times_cols(1), of sample_pandas default_format True] frame_times_cols(2) p1 nr
    by simp
  have col1: "get_col ?t1 ''start_time'' = Some (Series DatetimeT [Ts \<lparr>c_year = 2025, c_month = 8, c_day = 18, c_hour = 6, c_minute = 0, c_second = 0\<rparr>, NA])"
    using parse_success_column [OF frame_times_cols(1) ok1 d] frame_times_cols(2) sample_reclean by simp
  then have cs1: "cells (getitem ?t1 ''start_time'') = [Ts \<lparr>c_year = 2025, c_month = 8, c_day = 18, c_hour = 6, c_minute = 0, c_second = 0\<rparr>, NA]"
    by (simp add: getitem_def)
  have np: "\<not> parses sample_pandas default_format (Ts \<lparr>c_year = 2025, c_month = 8, c_day = 18, c_hour = 6, c_minute = 0, c_second = 0\<rparr>)" "\<not> parses sample_pandas default_format NA"
    using sample_reparse(2) by (simp_all add: parses_Ts parses_NA)
  have lib: "(\<forall>v \<in> set (cells (getitem ?t1 ''start_time'')). \<not> parses sample_pandas default_format v)
          \<or> (''start_time'' \<notin> set derived_names
             \<and> (\<forall>t. Ts t \<in> set (cells (getitem ?t1 ''start_time''))
                   \<longrightarrow> reparse sample_pandas default_format t = Some t))"
    using np by (simp add: cs1)
  have r2: "get_col (fst (parse_datetime_column sample_pandas ?t1 ''start_time'' default_format True)) ''start_time''
            = get_col ?t1 ''start_time''"
    using normalizers_idempotent [where api = sample_pandas and df = frame_times and cols = "[]"
        and c = "''start_time''" and fmt = default_format and flag = True and again = True,
        THEN conjunct2, THEN mp] frame_times_cols(1) ok1 lib
    by (simp only: simp_thms)
  from k sample_prints r1 kc frame_times_cols(1) ok1 d cs1 np r2 col1
  show ?thesis by simp
qed

end
